theory Spec2Isabelle
  imports Main "HOL-Library.Word"
begin

unbundle bit_operations_syntax

section \<open>Python values, errors and slicing\<close>

text \<open>
  The module \<^verbatim>\<open>database_records.py\<close> decodes records from a page buffer, a Python 2
  byte string. A byte is an 8-bit word, a buffer a list of bytes. Every exception the
  module or the \<^verbatim>\<open>struct\<close> library can raise is a value of \<open>error\<close>.
\<close>

type_synonym byte = "8 word"

datatype error =
    NotImplementedError string
  | StructError
  | CrcError string
  | IndexError
  | TypeError
  | AttributeError

text \<open>
  A value unpacked by \<^verbatim>\<open>struct\<close>: an integer, a byte string (codes \<^verbatim>\<open>c\<close> and
  \<^verbatim>\<open>s\<close>) or a double (code \<^verbatim>\<open>d\<close>). The double is kept as the eight bytes
  it was read from; none of its arithmetic is modelled.
\<close>

datatype pyval = PInt int | PStr "byte list" | PFloat "byte list"

fun err_bind :: "'e + 'a \<Rightarrow> ('a \<Rightarrow> 'e + 'b) \<Rightarrow> 'e + 'b" where
  "err_bind (Inl e) f = Inl e"
| "err_bind (Inr x) f = f x"

text \<open>
  Slices \<^verbatim>\<open>xs[lo:hi]\<close>, \<^verbatim>\<open>xs[:hi]\<close> and \<^verbatim>\<open>xs[lo:]\<close>: a negative bound counts from
  the end, and every bound is clamped to the sequence.
\<close>

definition py_bound :: "nat \<Rightarrow> int \<Rightarrow> nat" where
  "py_bound n i = (if i < 0 then nat (max (int n + i) 0) else min (nat i) n)"

definition py_slice :: "'a list \<Rightarrow> int \<Rightarrow> int \<Rightarrow> 'a list" where
  "py_slice xs lo hi =
     (let a = py_bound (length xs) lo; b = py_bound (length xs) hi
      in take (b - a) (drop a xs))"

definition py_slice_to :: "'a list \<Rightarrow> int \<Rightarrow> 'a list" where
  "py_slice_to xs hi = take (py_bound (length xs) hi) xs"

definition py_slice_from :: "'a list \<Rightarrow> int \<Rightarrow> 'a list" where
  "py_slice_from xs lo = drop (py_bound (length xs) lo) xs"

text \<open>Indexing \<^verbatim>\<open>xs[i]\<close>: a negative index counts from the end, out of range raises.\<close>

definition py_getitem :: "'a list \<Rightarrow> int \<Rightarrow> error + 'a" where
  "py_getitem xs i =
     (if 0 \<le> i \<and> i < int (length xs) then Inr (xs ! nat i)
      else if i < 0 \<and> - int (length xs) \<le> i then Inr (xs ! nat (int (length xs) + i))
      else Inl IndexError)"

section \<open>The part of the struct library the module uses\<close>

text \<open>
  Format codes of the module's layouts: \<^verbatim>\<open>I\<close>, \<^verbatim>\<open>H\<close>, \<^verbatim>\<open>B\<close> unsigned of 4, 2
  and 1 bytes, \<^verbatim>\<open>b\<close> and \<^verbatim>\<open>h\<close> signed of 1 and 2 bytes, \<^verbatim>\<open>d\<close> a double,
  \<^verbatim>\<open>c\<close> one character, \<^verbatim>\<open>ns\<close> a string of n bytes. All layouts but one start with
  \<^verbatim>\<open><\<close> (little-endian, no padding); the one without a prefix is the single code
  \<^verbatim>\<open>H\<close>, read in the byte order of the host, which is taken to be little-endian.
\<close>

datatype fcode = Fmt_I | Fmt_H | Fmt_B | Fmt_b | Fmt_h | Fmt_d | Fmt_c | Fmt_s nat

fun fcode_size :: "fcode \<Rightarrow> nat" where
  "fcode_size Fmt_I = 4"
| "fcode_size Fmt_H = 2"
| "fcode_size Fmt_B = 1"
| "fcode_size Fmt_b = 1"
| "fcode_size Fmt_h = 2"
| "fcode_size Fmt_d = 8"
| "fcode_size Fmt_c = 1"
| "fcode_size (Fmt_s n) = n"

definition digit_of :: "char \<Rightarrow> nat option" where
  "digit_of c = map_of (zip ''0123456789'' [0 ..< 10]) c"

fun code_of :: "char \<Rightarrow> fcode option" where
  "code_of c =
     (if c = CHR ''I'' then Some Fmt_I else if c = CHR ''H'' then Some Fmt_H
      else if c = CHR ''B'' then Some Fmt_B else if c = CHR ''b'' then Some Fmt_b
      else if c = CHR ''h'' then Some Fmt_h else if c = CHR ''d'' then Some Fmt_d
      else if c = CHR ''c'' then Some Fmt_c else None)"

definition count_of :: "nat option \<Rightarrow> nat" where
  "count_of cnt = (case cnt of None \<Rightarrow> 1 | Some n \<Rightarrow> n)"

fun parse_items :: "nat option \<Rightarrow> string \<Rightarrow> fcode list option" where
  "parse_items cnt [] = (case cnt of None \<Rightarrow> Some [] | Some n \<Rightarrow> None)"
| "parse_items cnt (c # cs) =
     (case digit_of c of
        Some d \<Rightarrow> parse_items (Some (10 * (case cnt of None \<Rightarrow> 0 | Some n \<Rightarrow> n) + d)) cs
      | None \<Rightarrow>
          (if c = CHR ''s''
           then map_option (\<lambda>r. Fmt_s (count_of cnt) # r) (parse_items None cs)
           else (case code_of c of
                   None \<Rightarrow> None
                 | Some f \<Rightarrow> map_option (\<lambda>r. replicate (count_of cnt) f @ r)
                              (parse_items None cs))))"

definition parse_format :: "string \<Rightarrow> fcode list option" where
  "parse_format s =
     (case s of [] \<Rightarrow> Some []
      | c # cs \<Rightarrow> if c = CHR ''<'' then parse_items None cs else parse_items None (c # cs))"

definition fmt_size :: "fcode list \<Rightarrow> nat" where
  "fmt_size fs = sum_list (map fcode_size fs)"

text \<open>\<^verbatim>\<open>struct.calcsize(fmt)\<close>; a format that does not parse raises \<^verbatim>\<open>struct.error\<close>.\<close>

definition calcsize :: "string \<Rightarrow> error + nat" where
  "calcsize s = (case parse_format s of None \<Rightarrow> Inl StructError | Some fs \<Rightarrow> Inr (fmt_size fs))"

fun le_uint :: "byte list \<Rightarrow> int" where
  "le_uint [] = 0"
| "le_uint (b # bs) = uint b + 256 * le_uint bs"

definition le_sint :: "byte list \<Rightarrow> int" where
  "le_sint bs =
     (if 2 * le_uint bs \<ge> 2 ^ (8 * length bs) then le_uint bs - 2 ^ (8 * length bs)
      else le_uint bs)"

fun decode_field :: "fcode \<Rightarrow> byte list \<Rightarrow> pyval" where
  "decode_field Fmt_I bs = PInt (le_uint bs)"
| "decode_field Fmt_H bs = PInt (le_uint bs)"
| "decode_field Fmt_B bs = PInt (le_uint bs)"
| "decode_field Fmt_b bs = PInt (le_sint bs)"
| "decode_field Fmt_h bs = PInt (le_sint bs)"
| "decode_field Fmt_d bs = PFloat bs"
| "decode_field Fmt_c bs = PStr bs"
| "decode_field (Fmt_s n) bs = PStr bs"

fun unpack_fields :: "fcode list \<Rightarrow> byte list \<Rightarrow> pyval list" where
  "unpack_fields [] bs = []"
| "unpack_fields (f # fs) bs =
     decode_field f (take (fcode_size f) bs) # unpack_fields fs (drop (fcode_size f) bs)"

text \<open>
  \<^verbatim>\<open>Struct.unpack(string)\<close>: the string must have exactly the size of the layout,
  otherwise \<^verbatim>\<open>struct.error\<close>.
\<close>

definition struct_unpack :: "fcode list \<Rightarrow> byte list \<Rightarrow> error + pyval list" where
  "struct_unpack fs bs =
     (if length bs = fmt_size fs then Inr (unpack_fields fs bs) else Inl StructError)"

section \<open>The class hierarchy\<close>

datatype cls =
    BaseDatabaseRecord | GenericTimestampedRecord | GenericXMLRecord
  | InsertionRecord | G5InsertionRecord | G5UserSettings | G6UserSettings
  | Calibration | LegacyCalibration | SubCal
  | MeterRecord | G5MeterRecord | EventRecord | SensorRecord
  | EGVRecord | G5EGVRecord | G6EGVRecord

fun cls_name :: "cls \<Rightarrow> string" where
  "cls_name BaseDatabaseRecord = ''BaseDatabaseRecord''"
| "cls_name GenericTimestampedRecord = ''GenericTimestampedRecord''"
| "cls_name GenericXMLRecord = ''GenericXMLRecord''"
| "cls_name InsertionRecord = ''InsertionRecord''"
| "cls_name G5InsertionRecord = ''G5InsertionRecord''"
| "cls_name G5UserSettings = ''G5UserSettings''"
| "cls_name G6UserSettings = ''G6UserSettings''"
| "cls_name Calibration = ''Calibration''"
| "cls_name LegacyCalibration = ''LegacyCalibration''"
| "cls_name SubCal = ''SubCal''"
| "cls_name MeterRecord = ''MeterRecord''"
| "cls_name G5MeterRecord = ''G5MeterRecord''"
| "cls_name EventRecord = ''EventRecord''"
| "cls_name SensorRecord = ''SensorRecord''"
| "cls_name EGVRecord = ''EGVRecord''"
| "cls_name G5EGVRecord = ''G5EGVRecord''"
| "cls_name G6EGVRecord = ''G6EGVRecord''"

text \<open>The base class each class statement names.\<close>

fun parent :: "cls \<Rightarrow> cls option" where
  "parent BaseDatabaseRecord = None"
| "parent GenericTimestampedRecord = Some BaseDatabaseRecord"
| "parent G5InsertionRecord = Some InsertionRecord"
| "parent LegacyCalibration = Some Calibration"
| "parent G5EGVRecord = Some EGVRecord"
| "parent G6EGVRecord = Some G5EGVRecord"
| "parent c = Some GenericTimestampedRecord"

text \<open>
  The method resolution order: the class, then its ancestors. The fuel is the number of
  classes, which no chain exceeds.
\<close>

fun mro_fuel :: "nat \<Rightarrow> cls \<Rightarrow> cls list" where
  "mro_fuel 0 c = []"
| "mro_fuel (Suc n) c = c # (case parent c of None \<Rightarrow> [] | Some p \<Rightarrow> mro_fuel n p)"

definition mro :: "cls \<Rightarrow> cls list" where
  "mro c = mro_fuel 17 c"

text \<open>The methods and properties each class body defines itself.\<close>

fun own_attrs :: "cls \<Rightarrow> string list" where
  "own_attrs BaseDatabaseRecord =
     [''_CheckFormat'', ''_ClassFormat'', ''_ClassSize'', ''FMT'', ''SIZE'', ''crc'',
      ''__init__'', ''check_crc'', ''dump'', ''calculate_crc'', ''Create'']"
| "own_attrs GenericTimestampedRecord =
     [''system_time'', ''display_time'', ''system_secs'', ''display_secs'', ''to_dict'']"
| "own_attrs GenericXMLRecord = [''xmldata'']"
| "own_attrs InsertionRecord =
     [''insertion_time'', ''insertion_secs'', ''session_state'', ''state_value'',
      ''__repr__'']"
| "own_attrs G5InsertionRecord = [''number'', ''transmitterPaired'']"
| "own_attrs G5UserSettings =
     [''transmitterPaired'', ''highAlert'', ''highRepeat'', ''lowAlert'', ''lowRepeat'',
      ''riseRate'', ''fallRate'', ''outOfRangeAlert'', ''soundsType'']"
| "own_attrs G6UserSettings =
     [''transmitterPaired'', ''highAlert'', ''highRepeat'', ''lowAlert'', ''lowRepeat'',
      ''riseRate'', ''fallRate'', ''outOfRangeAlert'', ''soundsType'',
      ''urgentLowSoonRepeat'', ''sensorCode'']"
| "own_attrs Calibration =
     [''raw'', ''slope'', ''intercept'', ''scale'', ''decay'', ''numsub'', ''__repr__'',
      ''_ClassSize'', ''Create'', ''__init__'', ''to_dict'', ''crc'']"
| "own_attrs LegacyCalibration = [''_ClassSize'']"
| "own_attrs SubCal = [''__init__'', ''entered'', ''meter'', ''sensor'', ''applied'']"
| "own_attrs MeterRecord =
     [''calib_gluc'', ''meter_secs'', ''meter_time'', ''record_type'', ''xx_testNum'',
      ''xx'', ''testNum'', ''__repr__'']"
| "own_attrs G5MeterRecord =
     [''calib_gluc'', ''record_type'', ''meter_secs'', ''xx_testNum'', ''xx'', ''testNum'',
      ''__repr__'']"
| "own_attrs EventRecord =
     [''event_type'', ''event_sub_type'', ''display_time'', ''event_value'', ''int_type'',
      ''int_sub_type'', ''meter_secs'', ''int_value'', ''__repr__'']"
| "own_attrs SensorRecord = [''unfiltered'', ''filtered'', ''rssi'']"
| "own_attrs EGVRecord =
     [''full_glucose'', ''full_trend'', ''display_only'', ''glucose'',
      ''glucose_special_meaning'', ''is_special'', ''testNum'', ''trend_arrow'',
      ''__repr__'']"
| "own_attrs G5EGVRecord = [''testNum'', ''full_trend'', ''realtime'']"
| "own_attrs G6EGVRecord = []"

text \<open>Attribute lookup: the first class of the resolution order that defines the name.\<close>

definition lookup_attr :: "string \<Rightarrow> cls \<Rightarrow> cls option" where
  "lookup_attr a c = find (\<lambda>k. a \<in> set (own_attrs k)) (mro c)"

text \<open>
  The layout string a class body assigns to \<^verbatim>\<open>FORMAT\<close>, if it assigns one.
  \<^verbatim>\<open>BaseDatabaseRecord\<close> assigns \<^verbatim>\<open>None\<close>, which is also what the lookup along
  the resolution order gives when no class on the way assigns a string.
\<close>

fun own_FORMAT :: "cls \<Rightarrow> string option" where
  "own_FORMAT GenericXMLRecord = Some ''<II490sH''"
| "own_FORMAT InsertionRecord = Some ''<3IBH''"
| "own_FORMAT G5InsertionRecord = Some ''<3IBI6sH''"
| "own_FORMAT G5UserSettings = Some ''<4I6sI8HBBIH''"
| "own_FORMAT G6UserSettings = Some ''<4I6sI8HBBHB4s7BH''"
| "own_FORMAT Calibration = Some ''<2Iddd3cdb''"
| "own_FORMAT SubCal = Some ''<IIIIc''"
| "own_FORMAT MeterRecord = Some ''<2IHIH''"
| "own_FORMAT G5MeterRecord = Some ''<2IHBIIH''"
| "own_FORMAT EventRecord = Some ''<2I2B2IH''"
| "own_FORMAT SensorRecord = Some ''<2IIIhH''"
| "own_FORMAT EGVRecord = Some ''<2IHBH''"
| "own_FORMAT G5EGVRecord = Some ''<2IHIBIBBHH''"
| "own_FORMAT G6EGVRecord = Some ''<2IHIBIBBHH''"
| "own_FORMAT c = None"

definition FORMAT :: "cls \<Rightarrow> string option" where
  "FORMAT c = (case find (\<lambda>k. own_FORMAT k \<noteq> None) (mro c) of
                 None \<Rightarrow> None | Some k \<Rightarrow> own_FORMAT k)"

definition LEGACY_SIZE :: nat where "LEGACY_SIZE = 148"
definition REV_2_SIZE :: nat where "REV_2_SIZE = 249"
definition EGV_TESTNUM_MASK :: int where "EGV_TESTNUM_MASK = 0x00ffffff"

definition CheckFormat :: "cls \<Rightarrow> error + unit" where
  "CheckFormat c =
     (case FORMAT c of
        None \<Rightarrow> Inl (NotImplementedError
                      (''Subclasses of '' @ cls_name c @ '' need to define FORMAT''))
      | Some f \<Rightarrow> if f = [] then Inl (NotImplementedError
                      (''Subclasses of '' @ cls_name c @ '' need to define FORMAT''))
                  else Inr ())"

text \<open>\<^verbatim>\<open>struct.Struct(fmt)\<close>: the parsed layout, or \<^verbatim>\<open>struct.error\<close>.\<close>

definition Struct :: "string \<Rightarrow> error + fcode list" where
  "Struct s = (case parse_format s of None \<Rightarrow> Inl StructError | Some fs \<Rightarrow> Inr fs)"

definition ClassFormat :: "cls \<Rightarrow> error + fcode list" where
  "ClassFormat c =
     err_bind (CheckFormat c)
       (\<lambda>u. case FORMAT c of None \<Rightarrow> Inl TypeError | Some f \<Rightarrow> Struct f)"

text \<open>
  \<^verbatim>\<open>_ClassSize\<close>: the size of the layout, but \<^verbatim>\<open>Calibration\<close> and
  \<^verbatim>\<open>LegacyCalibration\<close> override it with a constant.
\<close>

definition ClassSize :: "cls \<Rightarrow> error + nat" where
  "ClassSize c =
     (case lookup_attr ''_ClassSize'' c of
        Some LegacyCalibration \<Rightarrow> Inr LEGACY_SIZE
      | Some Calibration \<Rightarrow> Inr REV_2_SIZE
      | _ \<Rightarrow> err_bind (ClassFormat c) (\<lambda>fs. Inr (fmt_size fs)))"

section \<open>Decoding a fixed-layout record\<close>

text \<open>
  An instance: its class, the slice it was decoded from and the tuple of unpacked values.
\<close>

record dbrecord =
  rcls :: cls
  raw_data :: "byte list"
  data :: "pyval list"

text \<open>
  The checksum function \<^verbatim>\<open>crc16.crc16\<close> is in another module; the decoder takes it as
  the parameter \<open>crc16\<close>.
\<close>

definition calculate_crc :: "(byte list \<Rightarrow> int) \<Rightarrow> 'a dbrecord_scheme \<Rightarrow> int" where
  "calculate_crc crc16 self = crc16 (py_slice_to (raw_data self) (- 2))"

text \<open>
  The property \<^verbatim>\<open>crc\<close>: the last unpacked value, but \<^verbatim>\<open>Calibration\<close> overrides it
  and unpacks the last two bytes of the slice with the layout \<^verbatim>\<open>H\<close>.
\<close>

definition crc :: "'a dbrecord_scheme \<Rightarrow> error + pyval" where
  "crc self =
     (case lookup_attr ''crc'' (rcls self) of
        Some Calibration \<Rightarrow>
          err_bind (Struct ''H'')
            (\<lambda>st. err_bind (struct_unpack st (py_slice_from (raw_data self) (- 2)))
               (\<lambda>t. py_getitem t 0))
      | _ \<Rightarrow> py_getitem (data self) (- 1))"

definition check_crc :: "(byte list \<Rightarrow> int) \<Rightarrow> 'a dbrecord_scheme \<Rightarrow> error + unit" where
  "check_crc crc16 self =
     (let local_crc = calculate_crc crc16 self
      in err_bind (crc self)
           (\<lambda>c. if PInt local_crc \<noteq> c
                 then Inl (CrcError (''Could not parse '' @ cls_name (rcls self)))
                 else Inr ()))"

text \<open>\<^verbatim>\<open>BaseDatabaseRecord.__init__\<close>, called as \<^verbatim>\<open>cls(data, raw_data)\<close>.\<close>

definition BaseDatabaseRecord_init ::
  "(byte list \<Rightarrow> int) \<Rightarrow> cls \<Rightarrow> pyval list \<Rightarrow> byte list \<Rightarrow> error + dbrecord" where
  "BaseDatabaseRecord_init crc16 c unpacked_data raw =
     (let self = \<lparr>rcls = c, raw_data = raw, data = unpacked_data\<rparr>
      in err_bind (check_crc crc16 self) (\<lambda>u. Inr self))"

text \<open>
  \<^verbatim>\<open>BaseDatabaseRecord.Create\<close>, for the classes that inherit both it and the
  constructor above.
\<close>

definition Create ::
  "(byte list \<Rightarrow> int) \<Rightarrow> cls \<Rightarrow> byte list \<Rightarrow> int \<Rightarrow> error + dbrecord" where
  "Create crc16 c buf record_counter =
     err_bind (ClassSize c)
       (\<lambda>size. let offset = record_counter * int size;
                   raw = py_slice buf offset (offset + int size)
               in err_bind (ClassFormat c)
                    (\<lambda>st. err_bind (struct_unpack st raw)
                       (\<lambda>unpacked_data. BaseDatabaseRecord_init crc16 c unpacked_data raw)))"

definition fixed_layout :: "cls \<Rightarrow> bool" where
  "fixed_layout c =
     (FORMAT c \<noteq> None \<and> lookup_attr ''Create'' c = Some BaseDatabaseRecord
      \<and> lookup_attr ''__init__'' c = Some BaseDatabaseRecord)"

section \<open>Timestamps\<close>

text \<open>
  \<^verbatim>\<open>util.ReceiverTimeToTime\<close> is in another module; the accessors take it as the
  parameter \<open>rtt\<close>, from seconds to a calendar time of any type. It adds the seconds to
  a date, so a value that is not a number raises \<^verbatim>\<open>TypeError\<close>.
\<close>

definition ReceiverTimeToTime :: "(int \<Rightarrow> 't) \<Rightarrow> pyval \<Rightarrow> error + 't" where
  "ReceiverTimeToTime rtt v = (case v of PInt n \<Rightarrow> Inr (rtt n) | _ \<Rightarrow> Inl TypeError)"

definition system_time :: "(int \<Rightarrow> 't) \<Rightarrow> 'a dbrecord_scheme \<Rightarrow> error + 't" where
  "system_time rtt self = err_bind (py_getitem (data self) 0) (ReceiverTimeToTime rtt)"

text \<open>\<^verbatim>\<open>display_time\<close>: \<^verbatim>\<open>EventRecord\<close> overrides the property of the base.\<close>

definition display_time :: "(int \<Rightarrow> 't) \<Rightarrow> 'a dbrecord_scheme \<Rightarrow> error + 't" where
  "display_time rtt self =
     (case lookup_attr ''display_time'' (rcls self) of
        Some EventRecord \<Rightarrow> err_bind (py_getitem (data self) 4) (ReceiverTimeToTime rtt)
      | _ \<Rightarrow> err_bind (py_getitem (data self) 1) (ReceiverTimeToTime rtt))"

definition system_secs :: "'a dbrecord_scheme \<Rightarrow> error + pyval" where
  "system_secs self = py_getitem (data self) 0"

definition display_secs :: "'a dbrecord_scheme \<Rightarrow> error + pyval" where
  "display_secs self = py_getitem (data self) 1"

section \<open>Accessors of the record variants\<close>

text \<open>
  Each accessor is looked up along the resolution order of the instance's class; a class
  without the property raises \<^verbatim>\<open>AttributeError\<close>. A list indexed by an unpacked
  value raises \<^verbatim>\<open>TypeError\<close> when the value is not an integer.
\<close>

definition index_by :: "'a list \<Rightarrow> pyval \<Rightarrow> error + 'a" where
  "index_by xs v = (case v of PInt n \<Rightarrow> py_getitem xs n | _ \<Rightarrow> Inl TypeError)"

subsection \<open>InsertionRecord\<close>

definition insertion_time :: "(int \<Rightarrow> 't) \<Rightarrow> 'a dbrecord_scheme \<Rightarrow> error + 't" where
  "insertion_time rtt self =
     (case lookup_attr ''insertion_time'' (rcls self) of
        Some InsertionRecord \<Rightarrow>
          err_bind (py_getitem (data self) 2)
            (\<lambda>v. if v = PInt 0xFFFFFFFF then system_time rtt self
                  else err_bind (py_getitem (data self) 2) (ReceiverTimeToTime rtt))
      | _ \<Rightarrow> Inl AttributeError)"

definition insertion_secs :: "'a dbrecord_scheme \<Rightarrow> error + pyval" where
  "insertion_secs self =
     (case lookup_attr ''insertion_secs'' (rcls self) of
        Some InsertionRecord \<Rightarrow> py_getitem (data self) 2
      | _ \<Rightarrow> Inl AttributeError)"

definition states :: "string option list" where
  "states = [None, Some ''REMOVED'', Some ''EXPIRED'', Some ''RESIDUAL_DEVIATION'',
             Some ''COUNTS_DEVIATION'', Some ''SECOND_SESSION'', Some ''OFF_TIME_LOSS'',
             Some ''STARTED'', Some ''BAD_TRANSMITTER'', Some ''MANUFACTURING_MODE'',
             Some ''UNKNOWN1'', Some ''UNKNOWN2'', Some ''UNKNOWN3'', Some ''UNKNOWN4'',
             Some ''UNKNOWN5'', Some ''UNKNOWN6'', Some ''UNKNOWN7'', Some ''UNKNOWN8'']"

definition session_state :: "'a dbrecord_scheme \<Rightarrow> error + string option" where
  "session_state self =
     (case lookup_attr ''session_state'' (rcls self) of
        Some InsertionRecord \<Rightarrow> err_bind (py_getitem (data self) 3) (index_by states)
      | _ \<Rightarrow> Inl AttributeError)"

definition state_value :: "'a dbrecord_scheme \<Rightarrow> error + pyval" where
  "state_value self =
     (case lookup_attr ''state_value'' (rcls self) of
        Some InsertionRecord \<Rightarrow> py_getitem (data self) 3
      | _ \<Rightarrow> Inl AttributeError)"

subsection \<open>EventRecord\<close>

definition event_types :: "string option list" where
  "event_types = [None, Some ''CARBS'', Some ''INSULIN'', Some ''HEALTH'',
                  Some ''EXCERCISE'', Some ''MAX_VALUE'']"

definition event_type :: "'a dbrecord_scheme \<Rightarrow> error + string option" where
  "event_type self =
     (case lookup_attr ''event_type'' (rcls self) of
        Some EventRecord \<Rightarrow> err_bind (py_getitem (data self) 2) (index_by event_types)
      | _ \<Rightarrow> Inl AttributeError)"

definition subtypes :: "(string \<times> string option list) list" where
  "subtypes =
     [(''INSULIN'', [None, Some ''FAST'', Some ''LONG'']),
      (''HEALTH'', [None, Some ''ILLNESS'', Some ''STRESS'', Some ''HIGH_SYMPTOMS'',
                    Some ''LOW_SYMTOMS'', Some ''CYCLE'', Some ''ALCOHOL'']),
      (''EXCERCISE'', [None, Some ''LIGHT'', Some ''MEDIUM'', Some ''HEAVY'',
                       Some ''MAX_VALUE''])]"

text \<open>
  \<^verbatim>\<open>event_sub_type\<close>: when the event type is no key of the table (also when it is
  \<^verbatim>\<open>None\<close>), the method falls off its end and returns \<^verbatim>\<open>None\<close>.
\<close>

definition event_sub_type :: "'a dbrecord_scheme \<Rightarrow> error + string option" where
  "event_sub_type self =
     (case lookup_attr ''event_sub_type'' (rcls self) of
        Some EventRecord \<Rightarrow>
          err_bind (event_type self)
            (\<lambda>t. case t of
                    None \<Rightarrow> Inr None
                  | Some name \<Rightarrow>
                      (case map_of subtypes name of
                         None \<Rightarrow> Inr None
                       | Some table \<Rightarrow>
                           err_bind (py_getitem (data self) 3) (index_by table)))
      | _ \<Rightarrow> Inl AttributeError)"

definition int_type :: "'a dbrecord_scheme \<Rightarrow> error + pyval" where
  "int_type self =
     (case lookup_attr ''int_type'' (rcls self) of
        Some EventRecord \<Rightarrow> py_getitem (data self) 2
      | _ \<Rightarrow> Inl AttributeError)"

definition int_sub_type :: "'a dbrecord_scheme \<Rightarrow> error + pyval" where
  "int_sub_type self =
     (case lookup_attr ''int_sub_type'' (rcls self) of
        Some EventRecord \<Rightarrow> py_getitem (data self) 3
      | _ \<Rightarrow> Inl AttributeError)"

subsection \<open>Meter and glucose records\<close>

text \<open>
  Python's \<^verbatim>\<open>&\<close> and \<^verbatim>\<open>>>\<close> on its unbounded integers are \<open>AND\<close> and
  \<open>drop_bit\<close> on \<open>int\<close>; on a byte string they raise \<^verbatim>\<open>TypeError\<close>.
\<close>

definition py_and :: "pyval \<Rightarrow> int \<Rightarrow> error + int" where
  "py_and v m = (case v of PInt n \<Rightarrow> Inr (n AND m) | _ \<Rightarrow> Inl TypeError)"

definition py_rshift :: "pyval \<Rightarrow> nat \<Rightarrow> error + pyval" where
  "py_rshift v k = (case v of PInt n \<Rightarrow> Inr (PInt (drop_bit k n)) | _ \<Rightarrow> Inl TypeError)"

definition xx_testNum :: "'a dbrecord_scheme \<Rightarrow> error + pyval" where
  "xx_testNum self =
     (case lookup_attr ''xx_testNum'' (rcls self) of
        Some MeterRecord \<Rightarrow> Inr (PInt 0)
      | Some G5MeterRecord \<Rightarrow> py_getitem (data self) 5
      | _ \<Rightarrow> Inl AttributeError)"

definition testNum :: "'a dbrecord_scheme \<Rightarrow> error + int" where
  "testNum self =
     (case lookup_attr ''testNum'' (rcls self) of
        Some MeterRecord \<Rightarrow> Inr 0
      | Some G5MeterRecord \<Rightarrow>
          err_bind (py_getitem (data self) 5)
            (\<lambda>v. err_bind (py_rshift v 8) (\<lambda>w. py_and w 0xffffff))
      | Some EGVRecord \<Rightarrow> Inr 0
      | Some G5EGVRecord \<Rightarrow>
          err_bind (py_getitem (data self) 5) (\<lambda>v. py_and v EGV_TESTNUM_MASK)
      | _ \<Rightarrow> Inl AttributeError)"

definition full_glucose :: "'a dbrecord_scheme \<Rightarrow> error + pyval" where
  "full_glucose self =
     (case lookup_attr ''full_glucose'' (rcls self) of
        Some EGVRecord \<Rightarrow> py_getitem (data self) 2
      | _ \<Rightarrow> Inl AttributeError)"

definition full_trend :: "'a dbrecord_scheme \<Rightarrow> error + pyval" where
  "full_trend self =
     (case lookup_attr ''full_trend'' (rcls self) of
        Some EGVRecord \<Rightarrow> py_getitem (data self) 3
      | Some G5EGVRecord \<Rightarrow> py_getitem (data self) 6
      | _ \<Rightarrow> Inl AttributeError)"

definition realtime :: "'a dbrecord_scheme \<Rightarrow> error + pyval" where
  "realtime self =
     (case lookup_attr ''realtime'' (rcls self) of
        Some G5EGVRecord \<Rightarrow> py_getitem (data self) 8
      | _ \<Rightarrow> Inl AttributeError)"

section \<open>The calibration record and its sub-records\<close>

record subcal = dbrecord +
  displayOffset :: pyval

record calibration = dbrecord +
  page_data :: "byte list"
  subcals :: "subcal list"

text \<open>\<^verbatim>\<open>struct.calcsize\<close> of a class attribute; \<^verbatim>\<open>None\<close> is no format string.\<close>

definition calcsize_of :: "string option \<Rightarrow> error + nat" where
  "calcsize_of f = (case f of None \<Rightarrow> Inl TypeError | Some s \<Rightarrow> calcsize s)"

text \<open>
  \<^verbatim>\<open>int(v)\<close>. The layouts give every position it is applied to an integer code, where
  it is the identity; the conversion of strings and doubles is not modelled and stands
  as \<^verbatim>\<open>TypeError\<close>.
\<close>

definition py_int :: "pyval \<Rightarrow> error + int" where
  "py_int v = (case v of PInt n \<Rightarrow> Inr n | _ \<Rightarrow> Inl TypeError)"

definition numsub :: "'a dbrecord_scheme \<Rightarrow> error + int" where
  "numsub self =
     (case lookup_attr ''numsub'' (rcls self) of
        Some Calibration \<Rightarrow> err_bind (py_getitem (data self) 9) py_int
      | _ \<Rightarrow> Inl AttributeError)"

text \<open>\<^verbatim>\<open>SubCal.__init__\<close>: unpacks its slice, and checks no checksum.\<close>

definition SubCal_init :: "byte list \<Rightarrow> pyval \<Rightarrow> error + subcal" where
  "SubCal_init raw off =
     err_bind (ClassFormat SubCal)
       (\<lambda>st. err_bind (struct_unpack st raw)
          (\<lambda>d. Inr \<lparr>rcls = SubCal, raw_data = raw, data = d, displayOffset = off\<rparr>))"

text \<open>\<^verbatim>\<open>xrange(n)\<close>: empty when \<open>n\<close> is not positive.\<close>

definition xrange :: "int \<Rightarrow> int list" where
  "xrange n = map int [0 ..< nat n]"

text \<open>The loop of \<^verbatim>\<open>Calibration.__init__\<close> over the sub-records.\<close>

fun subcal_loop ::
  "pyval list \<Rightarrow> byte list \<Rightarrow> nat \<Rightarrow> int list \<Rightarrow> subcal list \<Rightarrow> error + subcal list" where
  "subcal_loop dat subdata subsize [] acc = Inr acc"
| "subcal_loop dat subdata subsize (i # is) acc =
     (let offset = i * int subsize;
          raw_sub = py_slice subdata offset (offset + int subsize)
      in err_bind (py_getitem dat 1)
           (\<lambda>d1. err_bind (SubCal_init raw_sub d1)
              (\<lambda>sub. subcal_loop dat subdata subsize is (acc @ [sub]))))"

definition Calibration_init ::
  "(byte list \<Rightarrow> int) \<Rightarrow> cls \<Rightarrow> pyval list \<Rightarrow> byte list \<Rightarrow> error + calibration" where
  "Calibration_init crc16 c unpacked_data raw =
     (let self = \<lparr>rcls = c, raw_data = raw, data = unpacked_data,
                  page_data = raw, subcals = []\<rparr>
      in err_bind (calcsize_of (FORMAT SubCal))
       (\<lambda>subsize. err_bind (numsub self)
         (\<lambda>n. let offset = n * int subsize
              in err_bind (calcsize_of (FORMAT c))
                (\<lambda>calsize.
                   let caldata = py_slice_to raw (int calsize);
                       subdata = py_slice raw (int calsize) (int calsize + offset);
                       crcdata = py_slice raw (int calsize + offset) (int calsize + offset + 2)
                   in err_bind (numsub self)
                     (\<lambda>m. err_bind (subcal_loop unpacked_data subdata subsize (xrange m) [])
                        (\<lambda>subs. let self' = self\<lparr>subcals := subs\<rparr>
                                in err_bind (check_crc crc16 self') (\<lambda>u. Inr self')))))))"

text \<open>\<^verbatim>\<open>Calibration.Create\<close>, inherited by \<^verbatim>\<open>LegacyCalibration\<close>.\<close>

definition Calibration_Create ::
  "(byte list \<Rightarrow> int) \<Rightarrow> cls \<Rightarrow> byte list \<Rightarrow> int \<Rightarrow> error + calibration" where
  "Calibration_Create crc16 c buf record_counter =
     err_bind (ClassSize c)
       (\<lambda>size. let offset = record_counter * int size
               in err_bind (calcsize_of (FORMAT c))
                 (\<lambda>cal_size.
                    let raw = py_slice buf offset (offset + int size);
                        cal_data = py_slice buf offset (offset + int cal_size)
                    in err_bind (ClassFormat c)
                      (\<lambda>st. err_bind (struct_unpack st cal_data)
                         (\<lambda>unpacked_data. Calibration_init crc16 c unpacked_data raw))))"

definition is_calibration :: "cls \<Rightarrow> bool" where
  "is_calibration c =
     (lookup_attr ''Create'' c = Some Calibration \<and> lookup_attr ''__init__'' c = Some Calibration)"

subsection \<open>The export as a dictionary\<close>

definition hexdigit :: "nat \<Rightarrow> char" where
  "hexdigit n = ''0123456789abcdef'' ! (n mod 16)"

definition hexlify :: "byte list \<Rightarrow> string" where
  "hexlify bs = concat (map (\<lambda>b. [hexdigit (unat b div 16), hexdigit (unat b mod 16)]) bs)"

text \<open>
  The value of a property: a calendar time (the only values with an \<^verbatim>\<open>isoformat\<close>
  method), an unpacked value, an integer or a string.
\<close>

datatype 't attr = ATime 't | AVal pyval | AInt int | AStr string

datatype field_val = FTime string | FVal pyval | FInt int | FStr string

datatype dict_val = Field field_val | SubRecords "(string \<rightharpoonup> field_val) list"

fun own_FIELDS :: "cls \<Rightarrow> string list option" where
  "own_FIELDS GenericTimestampedRecord = Some []"
| "own_FIELDS InsertionRecord = Some [''insertion_time'', ''session_state'']"
| "own_FIELDS Calibration =
     Some [''slope'', ''intercept'', ''scale'', ''decay'', ''numsub'', ''raw'']"
| "own_FIELDS SubCal = Some [''entered'', ''meter'', ''sensor'', ''applied'']"
| "own_FIELDS MeterRecord = Some [''calib_gluc'', ''meter_time'']"
| "own_FIELDS G5MeterRecord =
     Some [''calib_gluc'', ''record_type'', ''meter_time'', ''xx_testNum'']"
| "own_FIELDS EventRecord = Some [''event_type'', ''event_sub_type'', ''event_value'']"
| "own_FIELDS SensorRecord = Some [''unfiltered'', ''filtered'', ''rssi'']"
| "own_FIELDS EGVRecord = Some [''glucose'', ''trend_arrow'']"
| "own_FIELDS c = None"

fun own_BASE_FIELDS :: "cls \<Rightarrow> string list option" where
  "own_BASE_FIELDS GenericTimestampedRecord = Some [''system_time'', ''display_time'']"
| "own_BASE_FIELDS SubCal = Some []"
| "own_BASE_FIELDS c = None"

definition class_attr :: "(cls \<Rightarrow> 'a option) \<Rightarrow> cls \<Rightarrow> error + 'a" where
  "class_attr own c =
     (case find (\<lambda>k. own k \<noteq> None) (mro c) of
        None \<Rightarrow> Inl AttributeError
      | Some k \<Rightarrow> (case own k of None \<Rightarrow> Inl AttributeError | Some v \<Rightarrow> Inr v))"

text \<open>
  \<^verbatim>\<open>getattr(self, k)\<close> for the names in the field lists of \<^verbatim>\<open>Calibration\<close> and
  \<^verbatim>\<open>SubCal\<close>, each property with the body its class gives it.
\<close>

definition field_attr ::
  "(int \<Rightarrow> 't) \<Rightarrow> 'a dbrecord_scheme \<Rightarrow> string \<Rightarrow> error + 't attr" where
  "field_attr rtt self k =
     (if k = ''system_time'' then err_bind (system_time rtt self) (\<lambda>t. Inr (ATime t))
      else if k = ''display_time'' then err_bind (display_time rtt self) (\<lambda>t. Inr (ATime t))
      else if lookup_attr k (rcls self) = Some Calibration then
        (if k = ''slope'' then err_bind (py_getitem (data self) 2) (\<lambda>v. Inr (AVal v))
         else if k = ''intercept'' then err_bind (py_getitem (data self) 3) (\<lambda>v. Inr (AVal v))
         else if k = ''scale'' then err_bind (py_getitem (data self) 4) (\<lambda>v. Inr (AVal v))
         else if k = ''decay'' then err_bind (py_getitem (data self) 8) (\<lambda>v. Inr (AVal v))
         else if k = ''numsub'' then err_bind (numsub self) (\<lambda>n. Inr (AInt n))
         else if k = ''raw'' then Inr (AStr (hexlify (raw_data self)))
         else Inl AttributeError)
      else if lookup_attr k (rcls self) = Some SubCal then
        (if k = ''entered''
         then err_bind (err_bind (py_getitem (data self) 0) (ReceiverTimeToTime rtt))
                (\<lambda>t. Inr (ATime t))
         else if k = ''meter''
         then err_bind (err_bind (py_getitem (data self) 1) py_int) (\<lambda>n. Inr (AInt n))
         else if k = ''sensor''
         then err_bind (err_bind (py_getitem (data self) 2) py_int) (\<lambda>n. Inr (AInt n))
         else if k = ''applied''
         then err_bind (err_bind (py_getitem (data self) 3) (ReceiverTimeToTime rtt))
                (\<lambda>t. Inr (ATime t))
         else Inl AttributeError)
      else Inl AttributeError)"

fun render :: "('t \<Rightarrow> string) \<Rightarrow> 't attr \<Rightarrow> field_val" where
  "render isoformat (ATime t) = FTime (isoformat t)"
| "render isoformat (AVal v) = FVal v"
| "render isoformat (AInt n) = FInt n"
| "render isoformat (AStr s) = FStr s"

text \<open>
  \<^verbatim>\<open>GenericTimestampedRecord.to_dict\<close>; \<open>isoformat\<close> is the method of that name of
  the calendar times.
\<close>

fun to_dict_loop ::
  "(string \<Rightarrow> error + 't attr) \<Rightarrow> ('t \<Rightarrow> string) \<Rightarrow> string list
   \<Rightarrow> (string \<rightharpoonup> field_val) \<Rightarrow> error + (string \<rightharpoonup> field_val)" where
  "to_dict_loop ga isoformat [] d = Inr d"
| "to_dict_loop ga isoformat (k # ks) d =
     err_bind (ga k) (\<lambda>v. to_dict_loop ga isoformat ks (d(k \<mapsto> render isoformat v)))"

definition to_dict ::
  "(int \<Rightarrow> 't) \<Rightarrow> ('t \<Rightarrow> string) \<Rightarrow> 'a dbrecord_scheme \<Rightarrow> error + (string \<rightharpoonup> field_val)" where
  "to_dict rtt isoformat self =
     err_bind (class_attr own_BASE_FIELDS (rcls self))
       (\<lambda>bf. err_bind (class_attr own_FIELDS (rcls self))
          (\<lambda>f. to_dict_loop (field_attr rtt self) isoformat (bf @ f) Map.empty))"

fun err_map :: "('a \<Rightarrow> error + 'b) \<Rightarrow> 'a list \<Rightarrow> error + 'b list" where
  "err_map f [] = Inr []"
| "err_map f (x # xs) = err_bind (f x) (\<lambda>y. err_bind (err_map f xs) (\<lambda>ys. Inr (y # ys)))"

text \<open>\<^verbatim>\<open>Calibration.to_dict\<close>: the fields, and the exports of the sub-records.\<close>

definition Calibration_to_dict ::
  "(int \<Rightarrow> 't) \<Rightarrow> ('t \<Rightarrow> string) \<Rightarrow> calibration \<Rightarrow> error + (string \<rightharpoonup> dict_val)" where
  "Calibration_to_dict rtt isoformat self =
     err_bind (to_dict rtt isoformat self)
       (\<lambda>res. err_bind (err_map (to_dict rtt isoformat) (subcals self))
          (\<lambda>subs. Inr ((map_option Field \<circ> res)(''subrecords'' \<mapsto> SubRecords subs))))"

section \<open>Example pages\<close>

text \<open>
  The examples need some function in the place of \<open>crc16\<close>; they take the sum of the
  bytes modulo \<open>2 ^ 16\<close>. For the calendar time they take the seconds themselves
  (\<open>id\<close> in the place of \<open>rtt\<close>).
\<close>

definition sum_crc16 :: "byte list \<Rightarrow> int" where
  "sum_crc16 bs = sum_list (map uint bs) mod 65536"

text \<open>
  An insertion record: system time 1, display time 2, insertion time \<^verbatim>\<open>0xFFFFFFFF\<close>,
  state 7, checksum 1030.
\<close>

definition insertion_page :: "byte list" where
  "insertion_page = [1, 0, 0, 0, 2, 0, 0, 0, 255, 255, 255, 255, 7, 6, 4]"

text \<open>An insertion record with insertion time 3 and state 18, checksum 24.\<close>

definition insertion_page18 :: "byte list" where
  "insertion_page18 = [1, 0, 0, 0, 2, 0, 0, 0, 3, 0, 0, 0, 18, 24, 0]"

text \<open>
  An event record: system time 1, display time 2, type 2, sub-type 1, fifth value 3,
  sixth value 250, checksum 259.
\<close>

definition event_page :: "byte list" where
  "event_page = [1, 0, 0, 0, 2, 0, 0, 0, 2, 1, 3, 0, 0, 0, 250, 0, 0, 0, 3, 1]"

text \<open>
  A G5 meter record: times 1 and 2, glucose 100, record type 3, meter time 5, combined
  field \<^verbatim>\<open>0x12FFFFFF\<close>, checksum 894.
\<close>

definition g5meter_page :: "byte list" where
  "g5meter_page =
     [1, 0, 0, 0, 2, 0, 0, 0, 100, 0, 3, 5, 0, 0, 0, 255, 255, 255, 18, 126, 3]"

text \<open>
  A G5 or G6 glucose record: times 1 and 2, glucose 100, meter time 5, test number field
  \<^verbatim>\<open>0x12FFFFFF\<close>, trend 4, realtime 99, checksum 994.
\<close>

definition egv_page :: "byte list" where
  "egv_page =
     [1, 0, 0, 0, 2, 0, 0, 0, 100, 0, 5, 0, 0, 0, 0, 255, 255, 255, 18, 4, 0, 99, 0, 226, 3]"

text \<open>
  The 44 bytes of a calibration header with times 1 and 2, all coefficients zero and the
  count byte \<open>n\<close>.
\<close>

definition cal_header :: "byte \<Rightarrow> byte list" where
  "cal_header n = [1, 0, 0, 0, 2, 0, 0, 0] @ replicate 35 0 @ [n]"

text \<open>
  A legacy calibration record (148 bytes) with two sub-records, padding, and the
  checksum 653 in its last two bytes.
\<close>

definition cal_page :: "byte list" where
  "cal_page =
     cal_header 2
     @ [10, 0, 0, 0, 100, 0, 0, 0, 200, 0, 0, 0, 11, 0, 0, 0, 0]
     @ [12, 0, 0, 0, 101, 0, 0, 0, 201, 0, 0, 0, 13, 0, 0, 0, 0]
     @ replicate 68 0 @ [141, 2]"

definition insertion_rec :: dbrecord where
  "insertion_rec =
     \<lparr>rcls = InsertionRecord, raw_data = insertion_page,
      data = [PInt 1, PInt 2, PInt 0xFFFFFFFF, PInt 7, PInt 1030]\<rparr>"

definition insertion_rec18 :: dbrecord where
  "insertion_rec18 =
     \<lparr>rcls = InsertionRecord, raw_data = insertion_page18,
      data = [PInt 1, PInt 2, PInt 3, PInt 18, PInt 24]\<rparr>"

definition event_rec :: dbrecord where
  "event_rec =
     \<lparr>rcls = EventRecord, raw_data = event_page,
      data = [PInt 1, PInt 2, PInt 2, PInt 1, PInt 3, PInt 250, PInt 259]\<rparr>"

definition g5meter_rec :: dbrecord where
  "g5meter_rec =
     \<lparr>rcls = G5MeterRecord, raw_data = g5meter_page,
      data = [PInt 1, PInt 2, PInt 100, PInt 3, PInt 5, PInt 0x12FFFFFF, PInt 894]\<rparr>"

definition g5egv_rec :: dbrecord where
  "g5egv_rec =
     \<lparr>rcls = G5EGVRecord, raw_data = egv_page,
      data = [PInt 1, PInt 2, PInt 100, PInt 5, PInt 0, PInt 0x12FFFFFF, PInt 4, PInt 0,
              PInt 99, PInt 994]\<rparr>"

section \<open>The layouts of the calibration record\<close>

text \<open>
  The parsed layouts of the calibration header and of a sub-record, and the sub-record
  that \<^verbatim>\<open>Calibration.__init__\<close> builds from the \<open>m\<close>-th slice of 17 bytes of the
  sub-record span.
\<close>

definition cal_fmt :: "fcode list" where
  "cal_fmt = [Fmt_I, Fmt_I, Fmt_d, Fmt_d, Fmt_d, Fmt_c, Fmt_c, Fmt_c, Fmt_d, Fmt_b]"

definition sub_fmt :: "fcode list" where
  "sub_fmt = [Fmt_I, Fmt_I, Fmt_I, Fmt_I, Fmt_c]"

definition sub_at :: "byte list \<Rightarrow> pyval \<Rightarrow> nat \<Rightarrow> subcal" where
  "sub_at subdata off m =
     \<lparr>rcls = SubCal, raw_data = take 17 (drop (17 * m) subdata),
      data = unpack_fields sub_fmt (take 17 (drop (17 * m) subdata)), displayOffset = off\<rparr>"

section \<open>Example calibration pages\<close>

text \<open>
  A legacy record with no sub-record whose bytes 44 and 45 hold the checksum 3 of its
  header, and zeros up to its end; a legacy record whose count byte is 7, more than the
  148 bytes can hold; the record that \<open>cal_page\<close> decodes to; and a legacy record
  whose count byte is \<^verbatim>\<open>0xFF\<close>, with its checksum 258, and the record it
  decodes to.
\<close>

definition cal_page_hdr_crc :: "byte list" where
  "cal_page_hdr_crc = cal_header 0 @ [3, 0] @ replicate 102 0"

definition cal_page_overrun :: "byte list" where
  "cal_page_overrun = cal_header 7 @ replicate 104 0"

definition cal_rec :: calibration where
  "cal_rec =
     \<lparr>rcls = LegacyCalibration, raw_data = cal_page,
      data = [PInt 1, PInt 2, PFloat (replicate 8 0), PFloat (replicate 8 0),
              PFloat (replicate 8 0), PStr [0], PStr [0], PStr [0], PFloat (replicate 8 0),
              PInt 2],
      page_data = cal_page,
      subcals =
        [\<lparr>rcls = SubCal,
           raw_data = [10, 0, 0, 0, 100, 0, 0, 0, 200, 0, 0, 0, 11, 0, 0, 0, 0],
           data = [PInt 10, PInt 100, PInt 200, PInt 11, PStr [0]],
           displayOffset = PInt 2\<rparr>,
         \<lparr>rcls = SubCal,
           raw_data = [12, 0, 0, 0, 101, 0, 0, 0, 201, 0, 0, 0, 13, 0, 0, 0, 0],
           data = [PInt 12, PInt 101, PInt 201, PInt 13, PStr [0]],
           displayOffset = PInt 2\<rparr>]\<rparr>"

definition cal_page_neg :: "byte list" where
  "cal_page_neg = cal_header 255 @ replicate 102 0 @ [2, 1]"

definition cal_rec_neg :: calibration where
  "cal_rec_neg =
     \<lparr>rcls = LegacyCalibration, raw_data = cal_page_neg,
      data = [PInt 1, PInt 2, PFloat (replicate 8 0), PFloat (replicate 8 0),
              PFloat (replicate 8 0), PStr [0], PStr [0], PStr [0], PFloat (replicate 8 0),
              PInt (- 1)],
      page_data = cal_page_neg,
      subcals = []\<rparr>"

section \<open>Slices, layouts and the class table\<close>


lemma py_bound_nonneg: "0 \<le> i \<Longrightarrow> py_bound n i = min (nat i) n"
  by (simp add: py_bound_def)

lemma take_min_length: "take (min m (length ys)) ys = take m ys"
  by (simp add: min_def)

lemma py_slice_nonneg:
  assumes "0 \<le> lo" and "lo \<le> hi"
  shows "py_slice xs lo hi = take (nat hi - nat lo) (drop (nat lo) xs)"
proof -
  have hi: "0 \<le> hi" using assms by simp
  have "py_slice xs lo hi =
          take (min (nat hi) (length xs) - min (nat lo) (length xs))
            (drop (min (nat lo) (length xs)) xs)"
    using assms hi by (simp add: py_slice_def py_bound_nonneg Let_def)
  also have "\<dots> = take (nat hi - nat lo) (drop (nat lo) xs)"
  proof (cases "nat lo \<le> length xs")
    case True
    then have "min (nat hi) (length xs) - min (nat lo) (length xs) =
                 min (nat hi - nat lo) (length (drop (nat lo) xs))"
      by (simp add: min_def) arith
    then show ?thesis
      using True by (simp only: take_min_length min_absorb1)
  next
    case False
    then show ?thesis by simp
  qed
  finally show ?thesis .
qed

lemma py_bound_neg: "0 < k \<Longrightarrow> py_bound n (- int k) = n - k"
  by (auto simp add: py_bound_def max_def)

lemma py_slice_to_neg2: "py_slice_to xs (- 2) = take (length xs - 2) xs"
  using py_bound_neg [of 2 "length xs"] by (simp add: py_slice_to_def)

lemma py_slice_from_neg2: "py_slice_from xs (- 2) = drop (length xs - 2) xs"
  using py_bound_neg [of 2 "length xs"] by (simp add: py_slice_from_def)

lemma py_getitem_last: "xs \<noteq> [] \<Longrightarrow> py_getitem xs (- 1) = Inr (last xs)"
proof -
  assume ne: "xs \<noteq> []"
  then have "nat (int (length xs) + - 1) = length xs - 1" "Suc 0 \<le> length xs"
    by (cases xs; simp)+
  with ne show ?thesis by (simp add: py_getitem_def last_conv_nth)
qed

lemma py_getitem_nat: "k < length xs \<Longrightarrow> py_getitem xs (int k) = Inr (xs ! k)"
  by (simp add: py_getitem_def)

lemma length_unpack_fields: "length (unpack_fields st bs) = length st"
  by (induction st arbitrary: bs) simp_all

lemma fmt_size_Cons: "fmt_size (f # fs) = fcode_size f + fmt_size fs"
  by (simp add: fmt_size_def)

lemma fmt_size_Nil: "fmt_size [] = 0"
  by (simp add: fmt_size_def)

lemma last_unpack_fields:
  "st \<noteq> [] \<Longrightarrow> last st = Fmt_H \<Longrightarrow> length bs = fmt_size st \<Longrightarrow>
   2 \<le> fmt_size st \<and> last (unpack_fields st bs) = PInt (le_uint (drop (fmt_size st - 2) bs))"
proof (induction st arbitrary: bs)
  case Nil
  then show ?case by simp
next
  case (Cons f fs)
  show ?case
  proof (cases "fs = []")
    case True
    with Cons.prems show ?thesis by (simp add: fmt_size_Cons fmt_size_Nil)
  next
    case False
    have len: "length (drop (fcode_size f) bs) = fmt_size fs"
      using Cons.prems by (simp add: fmt_size_Cons)
    from False Cons.prems have l: "last fs = Fmt_H" by simp
    from Cons.IH [OF False l len]
    have ih: "2 \<le> fmt_size fs"
      "last (unpack_fields fs (drop (fcode_size f) bs)) =
         PInt (le_uint (drop (fmt_size fs - 2) (drop (fcode_size f) bs)))" by simp_all
    have ne: "unpack_fields fs (drop (fcode_size f) bs) \<noteq> []"
      using False length_unpack_fields [of fs "drop (fcode_size f) bs"] by auto
    have "fmt_size fs - 2 + fcode_size f = fmt_size (f # fs) - 2"
      using ih(1) by (simp add: fmt_size_Cons)
    with ih ne show ?thesis by (simp add: fmt_size_Cons)
  qed
qed

lemma ClassFormat_eqs:
  "ClassFormat GenericXMLRecord = Inr [Fmt_I, Fmt_I, Fmt_s 490, Fmt_H]"
  "ClassFormat InsertionRecord = Inr [Fmt_I, Fmt_I, Fmt_I, Fmt_B, Fmt_H]"
  "ClassFormat G5InsertionRecord = Inr [Fmt_I, Fmt_I, Fmt_I, Fmt_B, Fmt_I, Fmt_s 6, Fmt_H]"
  "ClassFormat G5UserSettings =
     Inr [Fmt_I, Fmt_I, Fmt_I, Fmt_I, Fmt_s 6, Fmt_I, Fmt_H, Fmt_H, Fmt_H, Fmt_H, Fmt_H, Fmt_H,
          Fmt_H, Fmt_H, Fmt_B, Fmt_B, Fmt_I, Fmt_H]"
  "ClassFormat G6UserSettings =
     Inr [Fmt_I, Fmt_I, Fmt_I, Fmt_I, Fmt_s 6, Fmt_I, Fmt_H, Fmt_H, Fmt_H, Fmt_H, Fmt_H, Fmt_H,
          Fmt_H, Fmt_H, Fmt_B, Fmt_B, Fmt_H, Fmt_B, Fmt_s 4, Fmt_B, Fmt_B, Fmt_B, Fmt_B, Fmt_B,
          Fmt_B, Fmt_B, Fmt_H]"
  "ClassFormat MeterRecord = Inr [Fmt_I, Fmt_I, Fmt_H, Fmt_I, Fmt_H]"
  "ClassFormat G5MeterRecord = Inr [Fmt_I, Fmt_I, Fmt_H, Fmt_B, Fmt_I, Fmt_I, Fmt_H]"
  "ClassFormat EventRecord = Inr [Fmt_I, Fmt_I, Fmt_B, Fmt_B, Fmt_I, Fmt_I, Fmt_H]"
  "ClassFormat SensorRecord = Inr [Fmt_I, Fmt_I, Fmt_I, Fmt_I, Fmt_h, Fmt_H]"
  "ClassFormat EGVRecord = Inr [Fmt_I, Fmt_I, Fmt_H, Fmt_B, Fmt_H]"
  "ClassFormat G5EGVRecord =
     Inr [Fmt_I, Fmt_I, Fmt_H, Fmt_I, Fmt_B, Fmt_I, Fmt_B, Fmt_B, Fmt_H, Fmt_H]"
  "ClassFormat G6EGVRecord =
     Inr [Fmt_I, Fmt_I, Fmt_H, Fmt_I, Fmt_B, Fmt_I, Fmt_B, Fmt_B, Fmt_H, Fmt_H]"
  "ClassFormat Calibration =
     Inr [Fmt_I, Fmt_I, Fmt_d, Fmt_d, Fmt_d, Fmt_c, Fmt_c, Fmt_c, Fmt_d, Fmt_b]"
  "ClassFormat LegacyCalibration =
     Inr [Fmt_I, Fmt_I, Fmt_d, Fmt_d, Fmt_d, Fmt_c, Fmt_c, Fmt_c, Fmt_d, Fmt_b]"
  "ClassFormat SubCal = Inr [Fmt_I, Fmt_I, Fmt_I, Fmt_I, Fmt_c]"
  by code_simp+

lemma fixed_layout_cases:
  "fixed_layout c \<longleftrightarrow>
     c \<in> {GenericXMLRecord, InsertionRecord, G5InsertionRecord, G5UserSettings, G6UserSettings,
          MeterRecord, G5MeterRecord, EventRecord, SensorRecord, EGVRecord, G5EGVRecord,
          G6EGVRecord}"
proof -
  have yes: "fixed_layout GenericXMLRecord" "fixed_layout InsertionRecord"
    "fixed_layout G5InsertionRecord" "fixed_layout G5UserSettings"
    "fixed_layout G6UserSettings" "fixed_layout MeterRecord" "fixed_layout G5MeterRecord"
    "fixed_layout EventRecord" "fixed_layout SensorRecord" "fixed_layout EGVRecord"
    "fixed_layout G5EGVRecord" "fixed_layout G6EGVRecord"
    by code_simp+
  have no: "\<not> fixed_layout BaseDatabaseRecord" "\<not> fixed_layout GenericTimestampedRecord"
    "\<not> fixed_layout Calibration" "\<not> fixed_layout LegacyCalibration"
    "\<not> fixed_layout SubCal"
    by code_simp+
  show ?thesis by (cases c) (simp_all add: yes no)
qed


lemma fixed_layout_lookups:
  assumes "fixed_layout c"
  shows "lookup_attr ''crc'' c = Some BaseDatabaseRecord"
    and "lookup_attr ''_ClassSize'' c = Some BaseDatabaseRecord"
proof -
  have "lookup_attr ''crc'' c = Some BaseDatabaseRecord
        \<and> lookup_attr ''_ClassSize'' c = Some BaseDatabaseRecord"
    if "c \<in> {GenericXMLRecord, InsertionRecord, G5InsertionRecord, G5UserSettings,
          G6UserSettings, MeterRecord, G5MeterRecord, EventRecord, SensorRecord, EGVRecord,
          G5EGVRecord, G6EGVRecord}"
    using that by (elim insertE emptyE; hypsubst; code_simp)
  with assms show "lookup_attr ''crc'' c = Some BaseDatabaseRecord"
    and "lookup_attr ''_ClassSize'' c = Some BaseDatabaseRecord"
    by (simp_all only: fixed_layout_cases)
qed

lemma fixed_layout_format:
  assumes "fixed_layout c"
  shows "\<exists>st. ClassFormat c = Inr st \<and> st \<noteq> [] \<and> last st = Fmt_H"
  using assms unfolding fixed_layout_cases
  by (elim insertE emptyE) (simp_all add: ClassFormat_eqs)

lemma ClassSize_fixed:
  "fixed_layout c \<Longrightarrow> ClassFormat c = Inr st \<Longrightarrow> ClassSize c = Inr (fmt_size st)"
  by (simp add: ClassSize_def fixed_layout_lookups)

lemma check_crc_base:
  assumes "lookup_attr ''crc'' c = Some BaseDatabaseRecord" and "d \<noteq> []"
  shows "check_crc crc16 \<lparr>rcls = c, raw_data = raw, data = d\<rparr> =
           (if PInt (crc16 (take (length raw - 2) raw)) = last d then Inr ()
            else Inl (CrcError (''Could not parse '' @ cls_name c)))"
  using assms
  by (simp add: check_crc_def crc_def calculate_crc_def py_slice_to_neg2 py_getitem_last)

section \<open>The checksum of a fixed-layout record\<close>

text \<open>
  Claim C4. For every fixed-layout variant (a class with a layout that inherits
  \<^verbatim>\<open>Create\<close> and the constructor of \<^verbatim>\<open>BaseDatabaseRecord\<close>), a record index
  \<open>i \<ge> 0\<close> and a buffer of at least \<open>(i + 1) * size\<close> bytes, \<^verbatim>\<open>Create\<close>
  returns the decoded record exactly when the checksum of the slice without its last two
  bytes equals the last two bytes read as a little-endian 16-bit integer; otherwise the
  result is \<^verbatim>\<open>CrcError\<close> with the name of the class, and no record.
\<close>

theorem Create_fixed_layout:
  assumes fl: "fixed_layout c"
  shows "\<exists>st. ClassFormat c = Inr st \<and> ClassSize c = Inr (fmt_size st) \<and>
           (0 \<le> i \<and> (nat i + 1) * fmt_size st \<le> length buf \<longrightarrow>
            Create crc16 c buf i =
              (let raw = take (fmt_size st) (drop (nat i * fmt_size st) buf)
               in if crc16 (take (fmt_size st - 2) raw) = le_uint (drop (fmt_size st - 2) raw)
                  then Inr \<lparr>rcls = c, raw_data = raw, data = unpack_fields st raw\<rparr>
                  else Inl (CrcError (''Could not parse '' @ cls_name c))))"
proof -
  from fixed_layout_format [OF fl] obtain st
    where st: "ClassFormat c = Inr st" "st \<noteq> []" "last st = Fmt_H" by blast
  have sz: "ClassSize c = Inr (fmt_size st)" by (rule ClassSize_fixed [OF fl st(1)])
  have "Create crc16 c buf i =
          (let raw = take (fmt_size st) (drop (nat i * fmt_size st) buf)
           in if crc16 (take (fmt_size st - 2) raw) = le_uint (drop (fmt_size st - 2) raw)
              then Inr \<lparr>rcls = c, raw_data = raw, data = unpack_fields st raw\<rparr>
              else Inl (CrcError (''Could not parse '' @ cls_name c)))"
    if i: "0 \<le> i" and len: "(nat i + 1) * fmt_size st \<le> length buf"
  proof -
    define raw where "raw = take (fmt_size st) (drop (nat i * fmt_size st) buf)"
    have "nat (i * int (fmt_size st) + int (fmt_size st)) - nat (i * int (fmt_size st))
            = fmt_size st"
      using i by (simp add: nat_add_distrib nat_mult_distrib)
    moreover have "nat (i * int (fmt_size st)) = nat i * fmt_size st"
      using i by (simp add: nat_mult_distrib)
    ultimately have slice:
      "py_slice buf (i * int (fmt_size st)) (i * int (fmt_size st) + int (fmt_size st)) = raw"
      using i by (simp add: py_slice_nonneg raw_def)
    have lraw: "length raw = fmt_size st"
      using len by (simp add: raw_def)
    from last_unpack_fields [OF st(2) st(3) lraw]
    have lastf: "last (unpack_fields st raw) = PInt (le_uint (drop (fmt_size st - 2) raw))"
      by simp
    have ne: "unpack_fields st raw \<noteq> []"
      using st(2) length_unpack_fields [of st raw] by auto
    have "Create crc16 c buf i =
            err_bind (check_crc crc16 \<lparr>rcls = c, raw_data = raw, data = unpack_fields st raw\<rparr>)
              (\<lambda>u. Inr \<lparr>rcls = c, raw_data = raw, data = unpack_fields st raw\<rparr>)"
      by (simp add: Create_def sz st(1) Let_def slice struct_unpack_def lraw
          BaseDatabaseRecord_init_def)
    also have "\<dots> =
        (if crc16 (take (fmt_size st - 2) raw) = le_uint (drop (fmt_size st - 2) raw)
         then Inr \<lparr>rcls = c, raw_data = raw, data = unpack_fields st raw\<rparr>
         else Inl (CrcError (''Could not parse '' @ cls_name c)))"
      by (simp add: check_crc_base [OF fixed_layout_lookups(1) [OF fl] ne] lastf lraw)
    finally show ?thesis by (simp add: raw_def Let_def)
  qed
  with st(1) sz show ?thesis by blast
qed


theorem Create_fixed_layout_witness:
  "fixed_layout InsertionRecord \<and> (0::int) \<le> 0 \<and> 15 \<le> length insertion_page \<and>
   Create sum_crc16 InsertionRecord insertion_page 0 =
     Inr \<lparr>rcls = InsertionRecord, raw_data = insertion_page,
          data = [PInt 1, PInt 2, PInt 0xFFFFFFFF, PInt 7, PInt 1030]\<rparr>"
proof -
  have fl: "fixed_layout InsertionRecord" by (simp add: fixed_layout_cases)
  from Create_fixed_layout [OF fl, of 0 insertion_page sum_crc16] obtain st
    where st: "ClassFormat InsertionRecord = Inr st"
      and imp: "0 \<le> (0::int) \<and> (nat 0 + 1) * fmt_size st \<le> length insertion_page \<longrightarrow>
         Create sum_crc16 InsertionRecord insertion_page 0 =
           (let raw = take (fmt_size st) (drop (nat 0 * fmt_size st) insertion_page)
            in if sum_crc16 (take (fmt_size st - 2) raw) = le_uint (drop (fmt_size st - 2) raw)
               then Inr \<lparr>rcls = InsertionRecord, raw_data = raw, data = unpack_fields st raw\<rparr>
               else Inl (CrcError (''Could not parse '' @ cls_name InsertionRecord)))"
    by blast
  from st have "st = [Fmt_I, Fmt_I, Fmt_I, Fmt_B, Fmt_H]" by (simp add: ClassFormat_eqs)
  with imp fl show ?thesis
    by (simp add: insertion_page_def fmt_size_def sum_crc16_def)
qed

lemma err_bind_Inr: "err_bind m f = Inr y \<longleftrightarrow> (\<exists>x. m = Inr x \<and> f x = Inr y)"
  by (cases m) simp_all

lemma Create_Inr:
  assumes "Create crc16 c buf i = Inr r" and "ClassFormat c = Inr st"
  shows "rcls r = c" and "length (raw_data r) = fmt_size st"
    and "data r = unpack_fields st (raw_data r)"
proof -
  from assms obtain n raw
    where up: "struct_unpack st raw = Inr (data r)" and r: "rcls r = c" "raw_data r = raw"
    by (auto simp add: Create_def err_bind_Inr Let_def BaseDatabaseRecord_init_def)
  from up have "length raw = fmt_size st" "data r = unpack_fields st raw"
    by (auto simp add: struct_unpack_def split: if_splits)
  with r show "rcls r = c" and "length (raw_data r) = fmt_size st"
    and "data r = unpack_fields st (raw_data r)" by simp_all
qed

lemma lookup_insertion:
  "lookup_attr ''insertion_time'' InsertionRecord = Some InsertionRecord"
  "lookup_attr ''insertion_time'' G5InsertionRecord = Some InsertionRecord"
  "lookup_attr ''insertion_secs'' InsertionRecord = Some InsertionRecord"
  "lookup_attr ''insertion_secs'' G5InsertionRecord = Some InsertionRecord"
  "lookup_attr ''session_state'' InsertionRecord = Some InsertionRecord"
  "lookup_attr ''session_state'' G5InsertionRecord = Some InsertionRecord"
  "lookup_attr ''state_value'' InsertionRecord = Some InsertionRecord"
  "lookup_attr ''state_value'' G5InsertionRecord = Some InsertionRecord"
  by code_simp+

lemma insertion_data:
  assumes c: "c = InsertionRecord \<or> c = G5InsertionRecord"
    and cr: "Create crc16 c buf i = Inr r"
  shows "\<exists>rest. data r = PInt (le_uint (take 4 (raw_data r)))
                 # PInt (le_uint (take 4 (drop 4 (raw_data r))))
                 # PInt (le_uint (take 4 (drop 8 (raw_data r))))
                 # PInt (le_uint (take 1 (drop 12 (raw_data r)))) # rest"
  using c
proof
  assume "c = InsertionRecord"
  with Create_Inr(3) [OF cr, of "[Fmt_I, Fmt_I, Fmt_I, Fmt_B, Fmt_H]"]
  show ?thesis by (simp add: ClassFormat_eqs)
next
  assume "c = G5InsertionRecord"
  with Create_Inr(3) [OF cr, of "[Fmt_I, Fmt_I, Fmt_I, Fmt_B, Fmt_I, Fmt_s 6, Fmt_H]"]
  show ?thesis by (simp add: ClassFormat_eqs)
qed

lemma py_getitem_simps:
  "py_getitem (a # xs) 0 = Inr a"
  "py_getitem (a # b # xs) 1 = Inr b"
  "py_getitem (a # b # c # xs) 2 = Inr c"
  "py_getitem (a # b # c # d # xs) 3 = Inr d"
  "py_getitem (a # b # c # d # e # xs) 4 = Inr e"
  "py_getitem (a # b # c # d # e # f # xs) 5 = Inr f"
  by (simp_all add: py_getitem_def)

lemma example_records:
  "Create sum_crc16 InsertionRecord insertion_page 0 = Inr insertion_rec"
  "Create sum_crc16 InsertionRecord insertion_page18 0 = Inr insertion_rec18"
  "Create sum_crc16 EventRecord event_page 0 = Inr event_rec"
  "Create sum_crc16 G5MeterRecord g5meter_page 0 = Inr g5meter_rec"
  "Create sum_crc16 G5EGVRecord egv_page 0 = Inr g5egv_rec"
  by code_simp+

section \<open>The insertion record\<close>

text \<open>
  Claim C6. For every successfully decoded \<^verbatim>\<open>InsertionRecord\<close> (or
  \<^verbatim>\<open>G5InsertionRecord\<close>, which inherits the property): when the raw insertion-time
  field, the four bytes at offset 8, is \<^verbatim>\<open>0xFFFFFFFF\<close>, \<^verbatim>\<open>insertion_time\<close> is the
  record's \<^verbatim>\<open>system_time\<close>; for every other raw value it is the epoch conversion of
  that value.
\<close>

theorem insertion_time_sentinel:
  assumes c: "c = InsertionRecord \<or> c = G5InsertionRecord"
    and cr: "Create crc16 c buf i = Inr r"
  shows "insertion_secs r = Inr (PInt (le_uint (take 4 (drop 8 (raw_data r)))))
     \<and> system_time rtt r = Inr (rtt (le_uint (take 4 (raw_data r))))
     \<and> insertion_time rtt r =
         (if le_uint (take 4 (drop 8 (raw_data r))) = 0xFFFFFFFF then system_time rtt r
          else Inr (rtt (le_uint (take 4 (drop 8 (raw_data r))))))"
proof -
  from insertion_data [OF c cr] obtain rest
    where d: "data r = PInt (le_uint (take 4 (raw_data r)))
                 # PInt (le_uint (take 4 (drop 4 (raw_data r))))
                 # PInt (le_uint (take 4 (drop 8 (raw_data r))))
                 # PInt (le_uint (take 1 (drop 12 (raw_data r)))) # rest" ..
  from Create_Inr(1) [OF cr] c have "rcls r = c"
    by (auto simp add: ClassFormat_eqs)
  with c d show ?thesis
    by (auto simp add: insertion_secs_def insertion_time_def system_time_def lookup_insertion
        py_getitem_simps ReceiverTimeToTime_def)
qed


theorem insertion_time_sentinel_witness:
  "Create sum_crc16 InsertionRecord insertion_page 0 = Inr insertion_rec
   \<and> insertion_secs insertion_rec = Inr (PInt 0xFFFFFFFF)
   \<and> system_time id insertion_rec = Inr 1
   \<and> insertion_time id insertion_rec = Inr 1"
proof -
  have "insertion_secs insertion_rec = Inr (PInt 0xFFFFFFFF)
        \<and> system_time id insertion_rec = Inr 1
        \<and> insertion_time id insertion_rec = Inr 1"
    using insertion_time_sentinel [OF _ example_records(1), of id]
    by (simp add: insertion_rec_def insertion_page_def)
  with example_records(1) show ?thesis by simp
qed

text \<open>
  Claim C9. For every successfully decoded insertion record, \<^verbatim>\<open>insertion_secs\<close> is the
  raw insertion-time field as it was read; when the field is the sentinel
  \<^verbatim>\<open>0xFFFFFFFF\<close> the accessor still returns \<^verbatim>\<open>0xFFFFFFFF\<close>, and only
  \<^verbatim>\<open>insertion_time\<close> substitutes the system time.
\<close>

theorem insertion_secs_raw:
  assumes c: "c = InsertionRecord \<or> c = G5InsertionRecord"
    and cr: "Create crc16 c buf i = Inr r"
  shows "insertion_secs r = Inr (PInt (le_uint (take 4 (drop 8 (raw_data r)))))
     \<and> (take 4 (drop 8 (raw_data r)) = [0xFF, 0xFF, 0xFF, 0xFF] \<longrightarrow>
          insertion_secs r = Inr (PInt 0xFFFFFFFF) \<and> insertion_time rtt r = system_time rtt r)"
proof -
  from insertion_data [OF c cr] obtain rest
    where d: "data r = PInt (le_uint (take 4 (raw_data r)))
                 # PInt (le_uint (take 4 (drop 4 (raw_data r))))
                 # PInt (le_uint (take 4 (drop 8 (raw_data r))))
                 # PInt (le_uint (take 1 (drop 12 (raw_data r)))) # rest" ..
  from Create_Inr(1) [OF cr] c have "rcls r = c"
    by (auto simp add: ClassFormat_eqs)
  with c d show ?thesis
    by (auto simp add: insertion_secs_def insertion_time_def lookup_insertion py_getitem_simps)
qed

theorem insertion_secs_raw_witness:
  "take 4 (drop 8 (raw_data insertion_rec)) = [0xFF, 0xFF, 0xFF, 0xFF]
   \<and> insertion_secs insertion_rec = Inr (PInt 0xFFFFFFFF)
   \<and> insertion_time id insertion_rec = system_time id insertion_rec"
  using insertion_secs_raw [OF _ example_records(1), of id]
  by (simp add: insertion_rec_def insertion_page_def)

section \<open>Test numbers\<close>

lemma lookup_testNum:
  "lookup_attr ''testNum'' G5EGVRecord = Some G5EGVRecord"
  "lookup_attr ''testNum'' G6EGVRecord = Some G5EGVRecord"
  "lookup_attr ''testNum'' G5MeterRecord = Some G5MeterRecord"
  "lookup_attr ''xx_testNum'' G5MeterRecord = Some G5MeterRecord"
  by code_simp+

lemma mask_example:
  "(0x12FFFFFF :: int) AND 0x00FFFFFF = 0x00FFFFFF"
  "drop_bit 8 (0x12FFFFFF :: int) AND 0xFFFFFF = 0x12FFFF"
  by simp_all

text \<open>
  Claim C5, as amended. For every successfully decoded G5 or G6 glucose record,
  \<^verbatim>\<open>testNum\<close> is the raw combined field (the sixth value, the four bytes at offset 15)
  masked with \<^verbatim>\<open>0x00FFFFFF\<close>, so the raw value \<^verbatim>\<open>0x12FFFFFF\<close> gives
  \<^verbatim>\<open>0x00FFFFFF\<close>. For every successfully decoded G5 meter record, \<^verbatim>\<open>testNum\<close> is
  the raw combined field shifted right by eight bits and then masked with
  \<^verbatim>\<open>0xFFFFFF\<close> (its upper three bytes), so the raw value \<^verbatim>\<open>0x12FFFFFF\<close> gives
  \<^verbatim>\<open>0x12FFFF\<close>.
\<close>

theorem testNum_masks:
  assumes cr: "Create crc16 c buf i = Inr r"
  shows "(c = G5EGVRecord \<or> c = G6EGVRecord \<longrightarrow>
            py_getitem (data r) 5 = Inr (PInt (le_uint (take 4 (drop 15 (raw_data r)))))
          \<and> testNum r = Inr (le_uint (take 4 (drop 15 (raw_data r))) AND 0x00FFFFFF)
          \<and> (le_uint (take 4 (drop 15 (raw_data r))) = 0x12FFFFFF \<longrightarrow>
               testNum r = Inr 0x00FFFFFF))
       \<and> (c = G5MeterRecord \<longrightarrow>
            xx_testNum r = Inr (PInt (le_uint (take 4 (drop 15 (raw_data r)))))
          \<and> testNum r = Inr (drop_bit 8 (le_uint (take 4 (drop 15 (raw_data r)))) AND 0xFFFFFF)
          \<and> (le_uint (take 4 (drop 15 (raw_data r))) = 0x12FFFFFF \<longrightarrow>
               testNum r = Inr 0x12FFFF))"
proof -
  have egv: "py_getitem (data r) 5 = Inr (PInt (le_uint (take 4 (drop 15 (raw_data r)))))
          \<and> testNum r = Inr (le_uint (take 4 (drop 15 (raw_data r))) AND 0x00FFFFFF)"
    if c: "c = G5EGVRecord \<or> c = G6EGVRecord"
  proof -
    from c have f: "ClassFormat c =
        Inr [Fmt_I, Fmt_I, Fmt_H, Fmt_I, Fmt_B, Fmt_I, Fmt_B, Fmt_B, Fmt_H, Fmt_H]"
      by (auto simp add: ClassFormat_eqs)
    from Create_Inr(1,3) [OF cr f] c show ?thesis
      by (auto simp add: testNum_def lookup_testNum py_getitem_simps py_and_def
          EGV_TESTNUM_MASK_def)
  qed
  have meter: "xx_testNum r = Inr (PInt (le_uint (take 4 (drop 15 (raw_data r)))))
          \<and> testNum r = Inr (drop_bit 8 (le_uint (take 4 (drop 15 (raw_data r)))) AND 0xFFFFFF)"
    if c: "c = G5MeterRecord"
  proof -
    from c have f: "ClassFormat c = Inr [Fmt_I, Fmt_I, Fmt_H, Fmt_B, Fmt_I, Fmt_I, Fmt_H]"
      by (simp add: ClassFormat_eqs)
    from Create_Inr(1,3) [OF cr f] c show ?thesis
      by (simp add: testNum_def xx_testNum_def lookup_testNum py_getitem_simps py_and_def
          py_rshift_def)
  qed
  show ?thesis
  proof (intro conjI impI)
    assume c: "c = G5EGVRecord \<or> c = G6EGVRecord"
    from egv [OF c]
    show "py_getitem (data r) 5 = Inr (PInt (le_uint (take 4 (drop 15 (raw_data r)))))"
      and t: "testNum r = Inr (le_uint (take 4 (drop 15 (raw_data r))) AND 0x00FFFFFF)"
      by simp_all
    assume "le_uint (take 4 (drop 15 (raw_data r))) = 0x12FFFFFF"
    with t show "testNum r = Inr 0x00FFFFFF" by (simp only: mask_example)
  next
    assume c: "c = G5MeterRecord"
    from meter [OF c]
    show "xx_testNum r = Inr (PInt (le_uint (take 4 (drop 15 (raw_data r)))))"
      and t: "testNum r = Inr (drop_bit 8 (le_uint (take 4 (drop 15 (raw_data r)))) AND 0xFFFFFF)"
      by simp_all
    assume "le_uint (take 4 (drop 15 (raw_data r))) = 0x12FFFFFF"
    with t show "testNum r = Inr 0x12FFFF" by (simp only: mask_example)
  qed
qed

theorem testNum_masks_witness:
  "Create sum_crc16 G5EGVRecord egv_page 0 = Inr g5egv_rec
   \<and> py_getitem (data g5egv_rec) 5 = Inr (PInt 0x12FFFFFF)
   \<and> testNum g5egv_rec = Inr 0x00FFFFFF"
proof -
  have "le_uint (take 4 (drop 15 (raw_data g5egv_rec))) = 0x12FFFFFF"
    by (simp add: g5egv_rec_def egv_page_def)
  with testNum_masks [OF example_records(5)]
  have "py_getitem (data g5egv_rec) 5 = Inr (PInt 0x12FFFFFF)
        \<and> testNum g5egv_rec = Inr 0x00FFFFFF" by simp
  with example_records(5) show ?thesis by simp
qed

text \<open>
  Claim C5 as stated fails on the G5 meter record: the record decoded from
  \<open>g5meter_page\<close> has the raw combined field \<^verbatim>\<open>0x12FFFFFF\<close> and the test number
  \<^verbatim>\<open>0x12FFFF\<close>, not \<^verbatim>\<open>0x00FFFFFF\<close>.
\<close>

theorem G5MeterRecord_testNum_counterexample:
  "Create sum_crc16 G5MeterRecord g5meter_page 0 = Inr g5meter_rec
   \<and> xx_testNum g5meter_rec = Inr (PInt 0x12FFFFFF)
   \<and> testNum g5meter_rec = Inr 0x12FFFF
   \<and> testNum g5meter_rec \<noteq> Inr 0x00FFFFFF"
proof -
  have "xx_testNum g5meter_rec = Inr (PInt 0x12FFFFFF)"
    by (simp add: g5meter_rec_def xx_testNum_def lookup_testNum py_getitem_simps)
  moreover have "testNum g5meter_rec = Inr 0x12FFFF"
    by (simp add: g5meter_rec_def testNum_def lookup_testNum py_getitem_simps py_rshift_def
        py_and_def)
  ultimately show ?thesis using example_records(4) by simp
qed

section \<open>Enumerated fields\<close>

lemma le_uint_nonneg: "0 \<le> le_uint bs"
  by (induction bs) simp_all

lemma py_getitem_nonneg:
  "0 \<le> v \<Longrightarrow> py_getitem xs v = (if v < int (length xs) then Inr (xs ! nat v) else Inl IndexError)"
  by (simp add: py_getitem_def)

lemma lookup_event:
  "lookup_attr ''event_type'' EventRecord = Some EventRecord"
  "lookup_attr ''event_sub_type'' EventRecord = Some EventRecord"
  "lookup_attr ''int_type'' EventRecord = Some EventRecord"
  "lookup_attr ''int_sub_type'' EventRecord = Some EventRecord"
  by code_simp+

text \<open>
  Claim C3, as amended. For every successfully decoded record with an enumerated field,
  the raw integer stays available (\<^verbatim>\<open>state_value\<close>, \<^verbatim>\<open>int_type\<close>,
  \<^verbatim>\<open>int_sub_type\<close>), and the symbolic accessor returns the entry of its table when the
  raw integer is inside the table and raises \<^verbatim>\<open>IndexError\<close> when it is outside:
  \<^verbatim>\<open>session_state\<close> for a state of 18 or more, \<^verbatim>\<open>event_type\<close> for a type of 6 or
  more. \<^verbatim>\<open>event_sub_type\<close> raises for a type of 6 or more, returns \<^verbatim>\<open>None\<close> for
  a type without a table of sub-types whatever the raw sub-type is, and otherwise indexes
  the table of the type, raising \<^verbatim>\<open>IndexError\<close> outside it.
\<close>

theorem enum_lookup:
  assumes cr: "Create crc16 c buf i = Inr r"
  shows "(c = InsertionRecord \<or> c = G5InsertionRecord \<longrightarrow>
           (let v = le_uint (take 1 (drop 12 (raw_data r)))
            in state_value r = Inr (PInt v)
             \<and> session_state r =
                 (if v < 18 then Inr (states ! nat v) else Inl IndexError)))
       \<and> (c = EventRecord \<longrightarrow>
           (let t = le_uint (take 1 (drop 8 (raw_data r)));
                s = le_uint (take 1 (drop 9 (raw_data r)))
            in int_type r = Inr (PInt t) \<and> int_sub_type r = Inr (PInt s)
             \<and> event_type r = (if t < 6 then Inr (event_types ! nat t) else Inl IndexError)
             \<and> event_sub_type r =
                 (if t < 6
                  then (case event_types ! nat t of
                          None \<Rightarrow> Inr None
                        | Some name \<Rightarrow>
                            (case map_of subtypes name of
                               None \<Rightarrow> Inr None
                             | Some table \<Rightarrow>
                                 if s < int (length table) then Inr (table ! nat s)
                                 else Inl IndexError))
                  else Inl IndexError)))"
proof (intro conjI impI)
  assume c: "c = InsertionRecord \<or> c = G5InsertionRecord"
  from insertion_data [OF c cr] obtain rest
    where d: "data r = PInt (le_uint (take 4 (raw_data r)))
                 # PInt (le_uint (take 4 (drop 4 (raw_data r))))
                 # PInt (le_uint (take 4 (drop 8 (raw_data r))))
                 # PInt (le_uint (take 1 (drop 12 (raw_data r)))) # rest" ..
  from Create_Inr(1) [OF cr] c have rc: "rcls r = c"
    by (auto simp add: ClassFormat_eqs)
  have len: "length states = 18" by (simp add: states_def)
  from c d rc
  show "let v = le_uint (take 1 (drop 12 (raw_data r)))
        in state_value r = Inr (PInt v)
         \<and> session_state r = (if v < 18 then Inr (states ! nat v) else Inl IndexError)"
    by (auto simp add: Let_def state_value_def session_state_def lookup_insertion
        py_getitem_simps index_by_def py_getitem_nonneg [OF le_uint_nonneg] len)
next
  assume c: "c = EventRecord"
  then have f: "ClassFormat c = Inr [Fmt_I, Fmt_I, Fmt_B, Fmt_B, Fmt_I, Fmt_I, Fmt_H]"
    by (simp add: ClassFormat_eqs)
  from Create_Inr(1,3) [OF cr f] c
  have rc: "rcls r = EventRecord"
    and d: "data r = unpack_fields [Fmt_I, Fmt_I, Fmt_B, Fmt_B, Fmt_I, Fmt_I, Fmt_H] (raw_data r)"
    by simp_all
  define t where "t = le_uint (take 1 (drop 8 (raw_data r)))"
  define s where "s = le_uint (take 1 (drop 9 (raw_data r)))"
  have nn: "0 \<le> t" "0 \<le> s" by (simp_all add: t_def s_def le_uint_nonneg)
  have g: "py_getitem (data r) 2 = Inr (PInt t)" "py_getitem (data r) 3 = Inr (PInt s)"
    using d by (simp_all add: py_getitem_simps t_def s_def)
  have len: "length event_types = 6" by (simp add: event_types_def)
  have et: "event_type r = (if t < 6 then Inr (event_types ! nat t) else Inl IndexError)"
    using rc by (simp add: event_type_def lookup_event g index_by_def py_getitem_nonneg nn len)
  have est: "event_sub_type r =
        (if t < 6
         then (case event_types ! nat t of
                 None \<Rightarrow> Inr None
               | Some name \<Rightarrow>
                   (case map_of subtypes name of
                      None \<Rightarrow> Inr None
                    | Some table \<Rightarrow>
                        if s < int (length table) then Inr (table ! nat s)
                        else Inl IndexError))
         else Inl IndexError)"
    using rc
    by (simp add: event_sub_type_def lookup_event et g index_by_def py_getitem_nonneg nn
        split: option.split)
  have "int_type r = Inr (PInt t)" "int_sub_type r = Inr (PInt s)"
    using rc by (simp_all add: int_type_def int_sub_type_def lookup_event g)
  with et est
  show "let t = le_uint (take 1 (drop 8 (raw_data r)));
            s = le_uint (take 1 (drop 9 (raw_data r)))
        in int_type r = Inr (PInt t) \<and> int_sub_type r = Inr (PInt s)
         \<and> event_type r = (if t < 6 then Inr (event_types ! nat t) else Inl IndexError)
         \<and> event_sub_type r =
             (if t < 6
              then (case event_types ! nat t of
                      None \<Rightarrow> Inr None
                    | Some name \<Rightarrow>
                        (case map_of subtypes name of
                           None \<Rightarrow> Inr None
                         | Some table \<Rightarrow>
                             if s < int (length table) then Inr (table ! nat s)
                             else Inl IndexError))
              else Inl IndexError)"
    unfolding Let_def t_def [symmetric] s_def [symmetric] by simp
qed

theorem enum_lookup_witness:
  "Create sum_crc16 EventRecord event_page 0 = Inr event_rec
   \<and> int_type event_rec = Inr (PInt 2) \<and> int_sub_type event_rec = Inr (PInt 1)
   \<and> event_type event_rec = Inr (Some ''INSULIN'')
   \<and> event_sub_type event_rec = Inr (Some ''FAST'')"
proof -
  have "int_type event_rec = Inr (PInt 2) \<and> int_sub_type event_rec = Inr (PInt 1)
   \<and> event_type event_rec = Inr (Some ''INSULIN'')
   \<and> event_sub_type event_rec = Inr (Some ''FAST'')"
    using enum_lookup [OF example_records(3)]
    by (simp add: event_rec_def event_page_def event_types_def subtypes_def Let_def)
  with example_records(3) show ?thesis by simp
qed

text \<open>
  Claim C3 as stated fails: the insertion record decoded from \<open>insertion_page18\<close> has
  the raw state 18, and its \<^verbatim>\<open>session_state\<close> raises \<^verbatim>\<open>IndexError\<close> rather
  than reporting an unknown state.
\<close>

theorem session_state_counterexample:
  "Create sum_crc16 InsertionRecord insertion_page18 0 = Inr insertion_rec18
   \<and> state_value insertion_rec18 = Inr (PInt 18)
   \<and> session_state insertion_rec18 = Inl IndexError"
proof -
  have "state_value insertion_rec18 = Inr (PInt 18)"
    by (simp add: insertion_rec18_def state_value_def lookup_insertion py_getitem_simps)
  moreover have "session_state insertion_rec18 = Inl IndexError"
    by (simp add: insertion_rec18_def session_state_def lookup_insertion py_getitem_simps
        index_by_def py_getitem_def states_def)
  ultimately show ?thesis using example_records(2) by simp
qed

section \<open>The G5 and G6 glucose records\<close>

lemma lookup_G6EGVRecord: "lookup_attr a G6EGVRecord = lookup_attr a G5EGVRecord"
  by (simp add: lookup_attr_def mro_def numeral_eq_Suc)

lemma lookup_egv:
  "lookup_attr ''full_trend'' G5EGVRecord = Some G5EGVRecord"
  "lookup_attr ''realtime'' G5EGVRecord = Some G5EGVRecord"
  "lookup_attr ''full_glucose'' G5EGVRecord = Some EGVRecord"
  "lookup_attr ''display_time'' G5EGVRecord = Some GenericTimestampedRecord"
  "lookup_attr ''crc'' G5EGVRecord = Some BaseDatabaseRecord"
  "lookup_attr ''_ClassSize'' G5EGVRecord = Some BaseDatabaseRecord"
  by code_simp+

lemma check_crc_G6:
  "check_crc crc16 \<lparr>rcls = G6EGVRecord, raw_data = raw, data = d\<rparr> =
     (case check_crc crc16 \<lparr>rcls = G5EGVRecord, raw_data = raw, data = d\<rparr> of
        Inl e \<Rightarrow> Inl (if e = CrcError ''Could not parse G5EGVRecord''
                      then CrcError ''Could not parse G6EGVRecord'' else e)
      | Inr u \<Rightarrow> Inr u)"
  by (cases "py_getitem d (- 1)")
     (auto simp add: check_crc_def crc_def lookup_G6EGVRecord lookup_egv Let_def
        calculate_crc_def py_getitem_def split: if_splits)

text \<open>
  Claim C10. \<^verbatim>\<open>G6EGVRecord\<close> declares the layout string of \<^verbatim>\<open>G5EGVRecord\<close> and
  defines no method or property of its own, so every attribute resolves to the same
  definition for both. For every buffer and record index the two classes decode alike:
  when one fails the other fails (a checksum failure names the class in its message),
  and when one returns a record the other returns the record with the same slice and the
  same unpacked values, and \<^verbatim>\<open>testNum\<close>, \<^verbatim>\<open>full_trend\<close>, \<^verbatim>\<open>realtime\<close>,
  \<^verbatim>\<open>full_glucose\<close> and the timestamps agree.
\<close>

theorem G6EGVRecord_decodes_as_G5EGVRecord:
  "own_FORMAT G6EGVRecord = own_FORMAT G5EGVRecord
   \<and> own_attrs G6EGVRecord = []
   \<and> lookup_attr a G6EGVRecord = lookup_attr a G5EGVRecord
   \<and> (case Create crc16 G5EGVRecord buf i of
         Inl e \<Rightarrow>
           Create crc16 G6EGVRecord buf i =
             Inl (if e = CrcError ''Could not parse G5EGVRecord''
                  then CrcError ''Could not parse G6EGVRecord'' else e)
       | Inr r5 \<Rightarrow>
           Create crc16 G6EGVRecord buf i = Inr (r5\<lparr>rcls := G6EGVRecord\<rparr>)
           \<and> testNum (r5\<lparr>rcls := G6EGVRecord\<rparr>) = testNum r5
           \<and> full_trend (r5\<lparr>rcls := G6EGVRecord\<rparr>) = full_trend r5
           \<and> realtime (r5\<lparr>rcls := G6EGVRecord\<rparr>) = realtime r5
           \<and> full_glucose (r5\<lparr>rcls := G6EGVRecord\<rparr>) = full_glucose r5
           \<and> system_secs (r5\<lparr>rcls := G6EGVRecord\<rparr>) = system_secs r5
           \<and> display_secs (r5\<lparr>rcls := G6EGVRecord\<rparr>) = display_secs r5
           \<and> system_time rtt (r5\<lparr>rcls := G6EGVRecord\<rparr>) = system_time rtt r5
           \<and> display_time rtt (r5\<lparr>rcls := G6EGVRecord\<rparr>) = display_time rtt r5)"
proof -
  have sz: "ClassSize G6EGVRecord = ClassSize G5EGVRecord"
    by (simp add: ClassSize_def lookup_G6EGVRecord lookup_egv ClassFormat_eqs)
  have fm: "ClassFormat G6EGVRecord = ClassFormat G5EGVRecord"
    by (simp add: ClassFormat_eqs)
  have acc: "testNum (r\<lparr>rcls := G6EGVRecord\<rparr>) = testNum r
           \<and> full_trend (r\<lparr>rcls := G6EGVRecord\<rparr>) = full_trend r
           \<and> realtime (r\<lparr>rcls := G6EGVRecord\<rparr>) = realtime r
           \<and> full_glucose (r\<lparr>rcls := G6EGVRecord\<rparr>) = full_glucose r
           \<and> system_secs (r\<lparr>rcls := G6EGVRecord\<rparr>) = system_secs r
           \<and> display_secs (r\<lparr>rcls := G6EGVRecord\<rparr>) = display_secs r
           \<and> system_time rtt (r\<lparr>rcls := G6EGVRecord\<rparr>) = system_time rtt r
           \<and> display_time rtt (r\<lparr>rcls := G6EGVRecord\<rparr>) = display_time rtt r"
    if "rcls r = G5EGVRecord" for r :: dbrecord
    using that
    by (simp add: testNum_def full_trend_def realtime_def full_glucose_def system_secs_def
        display_secs_def system_time_def display_time_def lookup_G6EGVRecord lookup_egv
        lookup_testNum)
  have sz5: "ClassSize G5EGVRecord = Inr 25" by code_simp
  define raw where "raw = py_slice buf (i * 25) (i * 25 + 25)"
  define st where "st = [Fmt_I, Fmt_I, Fmt_H, Fmt_I, Fmt_B, Fmt_I, Fmt_B, Fmt_B, Fmt_H, Fmt_H]"
  have c5: "Create crc16 G5EGVRecord buf i =
      err_bind (struct_unpack st raw)
        (\<lambda>d. err_bind (check_crc crc16 \<lparr>rcls = G5EGVRecord, raw_data = raw, data = d\<rparr>)
           (\<lambda>u. Inr \<lparr>rcls = G5EGVRecord, raw_data = raw, data = d\<rparr>))"
    by (simp add: Create_def sz5 ClassFormat_eqs Let_def BaseDatabaseRecord_init_def raw_def
        st_def)
  have c6: "Create crc16 G6EGVRecord buf i =
      err_bind (struct_unpack st raw)
        (\<lambda>d. err_bind (check_crc crc16 \<lparr>rcls = G6EGVRecord, raw_data = raw, data = d\<rparr>)
           (\<lambda>u. Inr \<lparr>rcls = G6EGVRecord, raw_data = raw, data = d\<rparr>))"
    by (simp add: Create_def sz sz5 ClassFormat_eqs Let_def BaseDatabaseRecord_init_def raw_def
        st_def)
  have cr: "(case Create crc16 G5EGVRecord buf i of
         Inl e \<Rightarrow>
           Create crc16 G6EGVRecord buf i =
             Inl (if e = CrcError ''Could not parse G5EGVRecord''
                  then CrcError ''Could not parse G6EGVRecord'' else e)
       | Inr r5 \<Rightarrow>
           Create crc16 G6EGVRecord buf i = Inr (r5\<lparr>rcls := G6EGVRecord\<rparr>)
           \<and> rcls r5 = G5EGVRecord)"
  proof (cases "struct_unpack st raw")
    case (Inl e)
    then have "e = StructError" by (simp add: struct_unpack_def split: if_splits)
    with Inl show ?thesis by (simp add: c5 c6)
  next
    case (Inr d)
    show ?thesis
      by (cases "check_crc crc16 \<lparr>rcls = G5EGVRecord, raw_data = raw, data = d\<rparr>")
         (simp_all add: c5 c6 Inr check_crc_G6)
  qed
  show ?thesis
  proof (cases "Create crc16 G5EGVRecord buf i")
    case (Inl e)
    with cr show ?thesis by (simp add: lookup_G6EGVRecord)
  next
    case (Inr r5)
    with cr have "Create crc16 G6EGVRecord buf i = Inr (r5\<lparr>rcls := G6EGVRecord\<rparr>)"
      and "rcls r5 = G5EGVRecord" by simp_all
    with acc [of r5] Inr show ?thesis by (simp add: lookup_G6EGVRecord)
  qed
qed

section \<open>Decoding a calibration record\<close>

lemma is_calibration_cases: "is_calibration c \<longleftrightarrow> c = Calibration \<or> c = LegacyCalibration"
proof -
  have yes: "is_calibration Calibration" "is_calibration LegacyCalibration" by code_simp+
  have no: "\<not> is_calibration BaseDatabaseRecord" "\<not> is_calibration GenericTimestampedRecord"
    "\<not> is_calibration GenericXMLRecord" "\<not> is_calibration InsertionRecord"
    "\<not> is_calibration G5InsertionRecord" "\<not> is_calibration G5UserSettings"
    "\<not> is_calibration G6UserSettings" "\<not> is_calibration SubCal"
    "\<not> is_calibration MeterRecord" "\<not> is_calibration G5MeterRecord"
    "\<not> is_calibration EventRecord" "\<not> is_calibration SensorRecord"
    "\<not> is_calibration EGVRecord" "\<not> is_calibration G5EGVRecord"
    "\<not> is_calibration G6EGVRecord"
    by code_simp+
  show ?thesis by (cases c) (simp_all add: yes no)
qed

lemma calibration_consts:
  "calcsize_of (FORMAT Calibration) = Inr 44"
  "calcsize_of (FORMAT LegacyCalibration) = Inr 44"
  "calcsize_of (FORMAT SubCal) = Inr 17"
  "ClassSize Calibration = Inr 249"
  "ClassSize LegacyCalibration = Inr 148"
  "Struct ''H'' = Inr [Fmt_H]"
  "lookup_attr ''numsub'' Calibration = Some Calibration"
  "lookup_attr ''numsub'' LegacyCalibration = Some Calibration"
  "lookup_attr ''crc'' Calibration = Some Calibration"
  "lookup_attr ''crc'' LegacyCalibration = Some Calibration"
  "lookup_attr ''display_time'' Calibration = Some GenericTimestampedRecord"
  "lookup_attr ''display_time'' LegacyCalibration = Some GenericTimestampedRecord"
  "lookup_attr ''display_time'' SubCal = Some GenericTimestampedRecord"
  by code_simp+

lemma fmt_sizes: "fmt_size cal_fmt = 44" "fmt_size sub_fmt = 17"
  by (simp_all add: fmt_size_def cal_fmt_def sub_fmt_def)

lemma SubCal_init_eq:
  "SubCal_init raw off =
     (if length raw = 17
      then Inr \<lparr>rcls = SubCal, raw_data = raw, data = unpack_fields sub_fmt raw,
               displayOffset = off\<rparr>
      else Inl StructError)"
  by (simp add: SubCal_init_def ClassFormat_eqs struct_unpack_def sub_fmt_def [symmetric]
      fmt_sizes)

lemma subcal_loop_upt:
  assumes d1: "py_getitem dat 1 = Inr off"
  shows "subcal_loop dat subdata 17 (map int [j ..< k]) acc =
           (if j < k \<and> length subdata < 17 * k then Inl StructError
            else Inr (acc @ map (sub_at subdata off) [j ..< k]))"
proof (induction "k - j" arbitrary: j acc)
  case 0
  then show ?case by simp
next
  case (Suc n)
  then have jk: "j < k" and n: "n = k - Suc j" by simp_all
  define rs where "rs = take 17 (drop (17 * j) subdata)"
  have sl: "py_slice subdata (int j * 17) (int j * 17 + 17) = rs"
    by (simp add: py_slice_nonneg nat_add_distrib nat_mult_distrib mult.commute rs_def)
  have step: "subcal_loop dat subdata 17 (map int [j ..< k]) acc =
          err_bind (SubCal_init rs off)
            (\<lambda>sub. subcal_loop dat subdata 17 (map int [Suc j ..< k]) (acc @ [sub]))"
    using jk by (simp add: upt_conv_Cons Let_def sl d1)
  show ?case
  proof (cases "17 * j + 17 \<le> length subdata")
    case True
    then have len: "length rs = 17" by (simp add: rs_def)
    have "SubCal_init rs off = Inr (sub_at subdata off j)"
      by (simp add: SubCal_init_eq len) (simp add: sub_at_def rs_def)
    with step have "subcal_loop dat subdata 17 (map int [j ..< k]) acc =
            subcal_loop dat subdata 17 (map int [Suc j ..< k]) (acc @ [sub_at subdata off j])"
      by simp
    also have "\<dots> = (if Suc j < k \<and> length subdata < 17 * k then Inl StructError
            else Inr ((acc @ [sub_at subdata off j]) @ map (sub_at subdata off) [Suc j ..< k]))"
      by (rule Suc.hyps(1) [OF n])
    also have "\<dots> = (if j < k \<and> length subdata < 17 * k then Inl StructError
            else Inr (acc @ map (sub_at subdata off) [j ..< k]))"
      using jk True by (auto simp add: upt_conv_Cons)
    finally show ?thesis .
  next
    case False
    then have len: "length rs \<noteq> 17" by (auto simp add: rs_def)
    have "SubCal_init rs off = Inl StructError"
      by (simp add: SubCal_init_eq len)
    with step have "subcal_loop dat subdata 17 (map int [j ..< k]) acc = Inl StructError"
      by simp
    moreover have "length subdata < 17 * k" using False jk by auto
    ultimately show ?thesis using jk by simp
  qed
qed

lemma check_crc_calibration:
  assumes "lookup_attr ''crc'' (rcls self) = Some Calibration"
  shows "check_crc crc16 self =
     (if length (raw_data self) < 2 then Inl StructError
      else if crc16 (take (length (raw_data self) - 2) (raw_data self))
              = le_uint (drop (length (raw_data self) - 2) (raw_data self))
      then Inr ()
      else Inl (CrcError (''Could not parse '' @ cls_name (rcls self))))"
proof (cases "length (raw_data self) < 2")
  case True
  then have "length (raw_data self) - (length (raw_data self) - 2) \<noteq> 2" by auto
  with True assms show ?thesis
    by (simp add: check_crc_def crc_def calibration_consts py_slice_from_neg2 struct_unpack_def
        fmt_size_def Let_def)
next
  case False
  then have "length (raw_data self) - (length (raw_data self) - 2) = 2" by auto
  with False assms show ?thesis
    by (simp add: check_crc_def crc_def calibration_consts py_slice_from_neg2 py_slice_to_neg2
        struct_unpack_def fmt_size_def Let_def calculate_crc_def py_getitem_simps)
qed


lemma xrange_upt: "xrange k = map int [0 ..< nat k]"
  by (simp add: xrange_def)

lemma numsub_calibration:
  assumes "is_calibration (rcls self)" and "length cal_data = 44"
    and "data self = unpack_fields cal_fmt cal_data"
  shows "numsub self = Inr (le_sint (take 1 (drop 43 cal_data)))"
  using assms
  by (auto simp add: is_calibration_cases numsub_def calibration_consts cal_fmt_def
      py_getitem_def py_int_def)

lemma Calibration_Create_eq:
  assumes c: "is_calibration c" and n: "ClassSize c = Inr n"
    and raw: "raw = py_slice buf (i * int n) (i * int n + int n)"
    and cal: "cal_data = py_slice buf (i * int n) (i * int n + 44)"
    and dat: "dat = unpack_fields cal_fmt cal_data"
    and k: "k = le_sint (take 1 (drop 43 cal_data))"
  shows "Calibration_Create crc16 c buf i =
     (if length cal_data \<noteq> 44 then Inl StructError
      else err_bind (subcal_loop dat (py_slice raw 44 (44 + k * 17)) 17 (xrange k) [])
             (\<lambda>subs. err_bind
                (check_crc crc16 \<lparr>rcls = c, raw_data = raw, data = dat, page_data = raw,
                                  subcals = subs\<rparr>)
                (\<lambda>u. Inr \<lparr>rcls = c, raw_data = raw, data = dat, page_data = raw,
                           subcals = subs\<rparr>)))"
proof -
  from c have cs: "calcsize_of (FORMAT c) = Inr 44" and cf: "ClassFormat c = Inr cal_fmt"
    by (auto simp add: is_calibration_cases calibration_consts ClassFormat_eqs cal_fmt_def)
  have cr: "Calibration_Create crc16 c buf i =
      err_bind (struct_unpack cal_fmt cal_data)
        (\<lambda>unpacked_data. Calibration_init crc16 c unpacked_data raw)"
    by (simp add: Calibration_Create_def n cs cf Let_def raw cal)
  show ?thesis
  proof (cases "length cal_data = 44")
    case False
    then show ?thesis by (simp add: cr struct_unpack_def fmt_sizes)
  next
    case True
    have ns: "numsub \<lparr>rcls = c, raw_data = raw, data = dat, page_data = raw, subcals = []\<rparr>
                = Inr k"
      using c by (intro numsub_calibration [where cal_data = cal_data, folded k])
        (simp_all add: True dat)
    from True have "Calibration_Create crc16 c buf i = Calibration_init crc16 c dat raw"
      by (simp add: cr struct_unpack_def fmt_sizes dat)
    also have "\<dots> =
        err_bind (subcal_loop dat (py_slice raw 44 (44 + k * 17)) 17 (xrange k) [])
             (\<lambda>subs. err_bind
                (check_crc crc16 \<lparr>rcls = c, raw_data = raw, data = dat, page_data = raw,
                                  subcals = subs\<rparr>)
                (\<lambda>u. Inr \<lparr>rcls = c, raw_data = raw, data = dat, page_data = raw,
                           subcals = subs\<rparr>))"
      by (simp add: Calibration_init_def Let_def calibration_consts cs ns)
    finally show ?thesis using True by simp
  qed
qed

lemma take_drop_take17:
  assumes "m < K"
  shows "take 17 (drop (17 * m) (take (17 * K) xs)) = take 17 (drop (17 * m) xs)"
proof -
  from assms have "17 \<le> 17 * K - 17 * m" by auto
  then show ?thesis by (simp add: drop_take min_absorb2)
qed

lemma Calibration_Create_Inr:
  assumes c: "is_calibration c" and cr: "Calibration_Create crc16 c buf i = Inr r"
  shows "rcls r = c"
    and "44 \<le> length (raw_data r) \<or> subcals r = []"
    and "\<exists>cal_data. length cal_data = 44 \<and> data r = unpack_fields cal_fmt cal_data"
    and "\<exists>k. numsub r = Inr k \<and> length (subcals r) = nat k
           \<and> (0 < k \<longrightarrow> 44 + 17 * nat k \<le> length (raw_data r))
           \<and> (\<forall>m < nat k. \<exists>off. py_getitem (data r) 1 = Inr off \<and>
                 subcals r ! m = sub_at (drop 44 (raw_data r)) off m)"
    and "2 \<le> length (raw_data r)"
    and "crc16 (take (length (raw_data r) - 2) (raw_data r))
           = le_uint (drop (length (raw_data r) - 2) (raw_data r))"
proof -
  from c obtain n where n: "ClassSize c = Inr n"
    by (auto simp add: is_calibration_cases calibration_consts)
  define raw where "raw = py_slice buf (i * int n) (i * int n + int n)"
  define cal_data where "cal_data = py_slice buf (i * int n) (i * int n + 44)"
  define dat where "dat = unpack_fields cal_fmt cal_data"
  define k where "k = le_sint (take 1 (drop 43 cal_data))"
  define subdata where "subdata = py_slice raw 44 (44 + k * 17)"
  note eq = Calibration_Create_eq [OF c n raw_def cal_data_def dat_def k_def, of crc16,
      folded subdata_def]
  from cr eq have len: "length cal_data = 44" by (auto split: if_splits)
  obtain off where off: "py_getitem dat 1 = Inr off"
    by (simp add: dat_def cal_fmt_def py_getitem_simps)
  have loop: "subcal_loop dat subdata 17 (xrange k) [] =
       (if 0 < nat k \<and> length subdata < 17 * nat k then Inl StructError
        else Inr (map (sub_at subdata off) [0 ..< nat k]))"
    using subcal_loop_upt [OF off, of subdata 0 "nat k" "[]"] by (simp add: xrange_upt)
  from cr eq len loop have ok: "\<not> (0 < nat k \<and> length subdata < 17 * nat k)"
    by (auto split: if_splits)
  define subs where "subs = map (sub_at subdata off) [0 ..< nat k]"
  define self where "self = \<lparr>rcls = c, raw_data = raw, data = dat, page_data = raw,
                                  subcals = subs\<rparr>"
  from ok loop have "subcal_loop dat subdata 17 (xrange k) [] = Inr subs"
    by (simp only: subs_def if_False)
  with cr eq len have chk: "err_bind (check_crc crc16 self) (\<lambda>u. Inr self) = Inr r"
    by (simp add: self_def)
  then have r: "r = self" and cc: "check_crc crc16 self = Inr ()"
    by (auto simp add: err_bind_Inr)
  have lk: "lookup_attr ''crc'' (rcls self) = Some Calibration"
    using c by (auto simp add: self_def is_calibration_cases calibration_consts)
  from cc check_crc_calibration [OF lk, of crc16]
  show "2 \<le> length (raw_data r)"
    and "crc16 (take (length (raw_data r) - 2) (raw_data r))
           = le_uint (drop (length (raw_data r) - 2) (raw_data r))"
    by (auto simp add: r split: if_splits)
  show "rcls r = c" by (simp add: r self_def)
  show "\<exists>cal_data. length cal_data = 44 \<and> data r = unpack_fields cal_fmt cal_data"
    using len by (auto simp add: r self_def dat_def)
  have ns: "numsub r = Inr k"
    using c by (intro numsub_calibration [where cal_data = cal_data, folded k_def])
      (simp_all add: len r self_def dat_def)
  have sd: "subdata = take (17 * nat k) (drop 44 raw)" if "0 < k"
    using that by (simp add: subdata_def py_slice_nonneg nat_add_distrib nat_mult_distrib
        mult.commute)
  have fit: "44 + 17 * nat k \<le> length raw" if "0 < k"
    using ok sd [OF that] that by auto
  show "44 \<le> length (raw_data r) \<or> subcals r = []"
  proof (cases "0 < k")
    case True
    from fit [OF True] show ?thesis by (simp add: r self_def)
  next
    case False
    then show ?thesis by (simp add: r self_def subs_def)
  qed
  have nth: "\<exists>off'. py_getitem (data r) 1 = Inr off' \<and>
                 subcals r ! m = sub_at (drop 44 (raw_data r)) off' m" if m: "m < nat k" for m
  proof -
    from m have kp: "0 < k" by simp
    have "subcals r ! m = sub_at subdata off m"
      using m by (simp add: r self_def subs_def)
    also have "\<dots> = sub_at (drop 44 raw) off m"
      using m by (simp add: sub_at_def sd [OF kp] take_drop_take17)
    finally show ?thesis using off by (auto simp add: r self_def)
  qed
  show "\<exists>k. numsub r = Inr k \<and> length (subcals r) = nat k
           \<and> (0 < k \<longrightarrow> 44 + 17 * nat k \<le> length (raw_data r))
           \<and> (\<forall>m < nat k. \<exists>off. py_getitem (data r) 1 = Inr off \<and>
                 subcals r ! m = sub_at (drop 44 (raw_data r)) off m)"
  proof -
    have l: "length (subcals r) = nat k" by (simp add: r self_def subs_def)
    have f: "0 < k \<longrightarrow> 44 + 17 * nat k \<le> length (raw_data r)"
      using fit by (simp add: r self_def)
    from ns l f nth show ?thesis by blast
  qed
qed

lemma length_py_slice: "lo \<le> hi \<Longrightarrow> length (py_slice xs lo hi) \<le> nat (hi - lo)"
  by (auto simp add: py_slice_def py_bound_def Let_def)


lemma py_slice_prefix:
  assumes "0 \<le> lo"
  shows "py_slice xs lo (lo + int a) = take a (drop (nat lo) xs)"
  using assms by (simp add: py_slice_nonneg nat_add_distrib)

lemma Calibration_Create_full:
  assumes c: "is_calibration c" and n: "ClassSize c = Inr n"
    and i: "0 \<le> i" and len: "(nat i + 1) * n \<le> length buf"
    and raw: "raw = take n (drop (nat i * n) buf)"
    and k: "k = le_sint (take 1 (drop 43 raw))"
    and fits: "44 + 17 * nat k \<le> n"
  shows "Calibration_Create crc16 c buf i =
     (if crc16 (take (n - 2) raw) = le_uint (drop (n - 2) raw)
      then Inr \<lparr>rcls = c, raw_data = raw, data = unpack_fields cal_fmt (take 44 raw),
                page_data = raw,
                subcals = map (sub_at (drop 44 raw) (PInt (le_uint (take 4 (drop 4 raw)))))
                            [0 ..< nat k]\<rparr>
      else Inl (CrcError (''Could not parse '' @ cls_name c)))"
proof -
  from c n have n44: "44 \<le> n" "2 \<le> n"
    by (auto simp add: is_calibration_cases calibration_consts)
  have o: "nat (i * int n) = nat i * n" using i by (simp add: nat_mult_distrib)
  have o0: "0 \<le> i * int n" using i by simp
  have r1: "py_slice buf (i * int n) (i * int n + int n) = raw"
    using py_slice_prefix [OF o0, of buf n] by (simp add: o raw)
  have lraw: "length raw = n" using len by (simp add: raw)
  have c1: "py_slice buf (i * int n) (i * int n + 44) = take 44 raw"
    using py_slice_prefix [OF o0, of buf 44] n44 by (simp add: o raw min_absorb2)
  have lcal: "length (take 44 raw) = 44" using lraw n44 by simp
  have k': "k = le_sint (take 1 (drop 43 (take 44 raw)))"
    by (simp add: k drop_take)
  define dat where "dat = unpack_fields cal_fmt (take 44 raw)"
  define subdata where "subdata = py_slice raw 44 (44 + k * 17)"
  note eq = Calibration_Create_eq [OF c n r1 [symmetric] c1 [symmetric] dat_def k', of crc16,
      folded subdata_def]
  have off: "py_getitem dat 1 = Inr (PInt (le_uint (take 4 (drop 4 raw))))"
    by (simp add: dat_def cal_fmt_def py_getitem_simps drop_take)
  have loop: "subcal_loop dat subdata 17 (xrange k) [] =
       (if 0 < nat k \<and> length subdata < 17 * nat k then Inl StructError
        else Inr (map (sub_at subdata (PInt (le_uint (take 4 (drop 4 raw))))) [0 ..< nat k]))"
    using subcal_loop_upt [OF off, of subdata 0 "nat k" "[]"] by (simp add: xrange_upt)
  have sd: "subdata = take (17 * nat k) (drop 44 raw)" if "0 < k"
    using that by (simp add: subdata_def py_slice_nonneg nat_add_distrib nat_mult_distrib
        mult.commute)
  have lsd: "\<not> (0 < nat k \<and> length subdata < 17 * nat k)"
  proof (cases "0 < k")
    case True
    from sd [OF True] fits lraw show ?thesis by simp
  next
    case False
    then show ?thesis by simp
  qed
  have subs: "map (sub_at subdata (PInt (le_uint (take 4 (drop 4 raw))))) [0 ..< nat k]
        = map (sub_at (drop 44 raw) (PInt (le_uint (take 4 (drop 4 raw))))) [0 ..< nat k]"
  proof (cases "0 < k")
    case True
    show ?thesis
      by (rule map_cong [OF refl]) (simp add: sub_at_def sd [OF True] take_drop_take17)
  next
    case False
    then show ?thesis by simp
  qed
  have lk: "lookup_attr ''crc'' c = Some Calibration"
    using c by (auto simp add: is_calibration_cases calibration_consts)
  from lsd loop subs
  have "subcal_loop dat subdata 17 (xrange k) [] =
      Inr (map (sub_at (drop 44 raw) (PInt (le_uint (take 4 (drop 4 raw))))) [0 ..< nat k])"
    by (simp only: if_False)
  with eq lcal show ?thesis
    using n44 by (simp add: check_crc_calibration lk lraw dat_def)
qed

lemma example_calibrations:
  "Calibration_Create sum_crc16 LegacyCalibration cal_page 0 = Inr cal_rec"
  "Calibration_Create sum_crc16 LegacyCalibration cal_page_hdr_crc 0 =
     Inl (CrcError ''Could not parse LegacyCalibration'')"
  "Calibration_Create sum_crc16 LegacyCalibration cal_page_overrun 0 = Inl StructError"
  by code_simp+

lemma example_page_facts:
  "length cal_page = 148"
  "le_sint (take 1 (drop 43 cal_page)) = 2"
  "sum_crc16 (take 146 cal_page) = le_uint (drop 146 cal_page)"
  "length cal_page_overrun = 148"
  "le_sint (take 1 (drop 43 cal_page_overrun)) = 7"
  "sum_crc16 (take 44 cal_page_hdr_crc) = le_uint (take 2 (drop 44 cal_page_hdr_crc))"
  "le_sint (take 1 (drop 43 cal_page_hdr_crc)) = 0"
  by code_simp+

lemma example_negative_count:
  "Calibration_Create sum_crc16 LegacyCalibration cal_page_neg 0 = Inr cal_rec_neg"
  "le_uint (take 1 (drop 43 cal_page_neg)) = 255"
  "le_sint (take 1 (drop 43 cal_page_neg)) = - 1"
  "length cal_page_neg = 148"
  by code_simp+

lemma le_sint_byte_range: "- 128 \<le> le_sint [b] \<and> le_sint [b] \<le> 127"
proof -
  have "uint b < 256" using uint_bounded [of b] by simp
  moreover have "- 128 \<le> uint b" using uint_ge_0 [of b] by linarith
  ultimately show ?thesis by (auto simp add: le_sint_def)
qed

section \<open>The checksum of a calibration record\<close>

text \<open>
  Claim C1, as amended. For a calibration record of either size, at a record index
  \<open>i \<ge> 0\<close> of a buffer that holds the whole record, whose sub-records fit into the
  record (the count is the count byte read as a signed integer, and a negative count
  decodes no sub-record): the checksum is computed over every byte of the record except
  its last two, and compared with the last two bytes of the record, read as a
  little-endian 16-bit integer. On a match the record is returned, on a mismatch the
  result is \<^verbatim>\<open>CrcError\<close>. With \<open>H\<close> the 44 bytes of header plus 17 bytes for each
  sub-record and \<open>n\<close> the size of the record, the checksummed bytes are the header and
  the sub-records alone exactly when \<open>H + 2 = n\<close>. When \<open>H + 2 < n\<close> they are the
  header, the sub-records and the \<open>n - 2 - H\<close> bytes that follow them. When
  \<open>H + 2 > n\<close> they stop one or two bytes short of the end of the last sub-record,
  whose last bytes lie in the two bytes compared as the checksum (the revision-2 size
  with 12 sub-records: 248 of 249 bytes).
\<close>

theorem Calibration_checksum_span:
  assumes c: "is_calibration c" and n: "ClassSize c = Inr n"
    and i: "0 \<le> i" and len: "(nat i + 1) * n \<le> length buf"
    and raw: "raw = take n (drop (nat i * n) buf)"
    and k: "k = le_sint (take 1 (drop 43 raw))"
    and fits: "44 + 17 * nat k \<le> n"
  shows "(crc16 (take (n - 2) raw) = le_uint (drop (n - 2) raw) \<longrightarrow>
           (\<exists>r. Calibration_Create crc16 c buf i = Inr r \<and> raw_data r = raw
                \<and> numsub r = Inr k \<and> length (subcals r) = nat k))
       \<and> (crc16 (take (n - 2) raw) \<noteq> le_uint (drop (n - 2) raw) \<longrightarrow>
           Calibration_Create crc16 c buf i = Inl (CrcError (''Could not parse '' @ cls_name c)))
       \<and> (take (n - 2) raw = take (44 + 17 * nat k) raw \<longleftrightarrow> 44 + 17 * nat k + 2 = n)
       \<and> (44 + 17 * nat k + 2 \<le> n \<longrightarrow>
           take (n - 2) raw =
             take (44 + 17 * nat k) raw @ take (n - 2 - (44 + 17 * nat k)) (drop (44 + 17 * nat k) raw)
           \<and> length (take (n - 2 - (44 + 17 * nat k)) (drop (44 + 17 * nat k) raw))
               = n - 2 - (44 + 17 * nat k))
       \<and> (n < 44 + 17 * nat k + 2 \<longrightarrow>
           take (44 + 17 * nat k) raw =
             take (n - 2) raw @ take (44 + 17 * nat k + 2 - n) (drop (n - 2) raw)
           \<and> length (take (44 + 17 * nat k + 2 - n) (drop (n - 2) raw)) = 44 + 17 * nat k + 2 - n
           \<and> 0 < 44 + 17 * nat k + 2 - n \<and> 44 + 17 * nat k + 2 - n \<le> 2)"
proof -
  note full = Calibration_Create_full [OF c n i len raw k fits, of crc16]
  from c n have n44: "44 \<le> n" "2 \<le> n"
    by (auto simp add: is_calibration_cases calibration_consts)
  have lraw: "length raw = n" using len by (simp add: raw)
  define H where "H = 44 + 17 * nat k"
  have ns: "numsub \<lparr>rcls = c, raw_data = raw, data = unpack_fields cal_fmt (take 44 raw),
                page_data = raw,
                subcals = map (sub_at (drop 44 raw) (PInt (le_uint (take 4 (drop 4 raw)))))
                            [0 ..< nat k]\<rparr> = Inr k"
  proof -
    have "numsub \<lparr>rcls = c, raw_data = raw, data = unpack_fields cal_fmt (take 44 raw),
                page_data = raw,
                subcals = map (sub_at (drop 44 raw) (PInt (le_uint (take 4 (drop 4 raw)))))
                            [0 ..< nat k]\<rparr> = Inr (le_sint (take 1 (drop 43 (take 44 raw))))"
      by (rule numsub_calibration) (use c lraw n44 in simp_all)
    then show ?thesis by (simp add: k drop_take)
  qed
  have HN: "H \<le> n" using fits by (simp add: H_def)
  have span: "take (n - 2) raw = take H raw \<longleftrightarrow> H + 2 = n"
  proof
    assume "take (n - 2) raw = take H raw"
    then have "length (take (n - 2) raw) = length (take H raw)" by simp
    with lraw HN n44 show "H + 2 = n" by simp
  next
    assume "H + 2 = n"
    then have "n - 2 = H" by simp
    then show "take (n - 2) raw = take H raw" by simp
  qed
  have longer: "take (n - 2) raw = take H raw @ take (n - 2 - H) (drop H raw)
           \<and> length (take (n - 2 - H) (drop H raw)) = n - 2 - H" if "H + 2 \<le> n"
  proof -
    from that have "n - 2 = H + (n - 2 - H)" by simp
    then have "take (n - 2) raw = take (H + (n - 2 - H)) raw" by simp
    then have "take (n - 2) raw = take H raw @ take (n - 2 - H) (drop H raw)"
      by (simp only: take_add)
    moreover have "length (take (n - 2 - H) (drop H raw)) = n - 2 - H"
      using lraw that by simp
    ultimately show ?thesis by simp
  qed
  have shorter: "take H raw = take (n - 2) raw @ take (H + 2 - n) (drop (n - 2) raw)
           \<and> length (take (H + 2 - n) (drop (n - 2) raw)) = H + 2 - n
           \<and> 0 < H + 2 - n \<and> H + 2 - n \<le> 2" if "n < H + 2"
  proof -
    from that n44 have "H = (n - 2) + (H + 2 - n)" by simp
    then have "take H raw = take ((n - 2) + (H + 2 - n)) raw" by simp
    then have "take H raw = take (n - 2) raw @ take (H + 2 - n) (drop (n - 2) raw)"
      by (simp only: take_add)
    moreover have "length (take (H + 2 - n) (drop (n - 2) raw)) = H + 2 - n"
      using lraw that HN n44 by simp
    moreover have "0 < H + 2 - n" "H + 2 - n \<le> 2" using that HN by simp_all
    ultimately show ?thesis by simp
  qed
  from full ns span longer shorter show ?thesis unfolding H_def by simp
qed

theorem Calibration_checksum_span_witness:
  "is_calibration LegacyCalibration \<and> ClassSize LegacyCalibration = Inr 148
   \<and> sum_crc16 (take 146 cal_page) = le_uint (drop 146 cal_page)
   \<and> (\<exists>r. Calibration_Create sum_crc16 LegacyCalibration cal_page 0 = Inr r
          \<and> raw_data r = cal_page \<and> numsub r = Inr 2 \<and> length (subcals r) = 2)
   \<and> take 146 cal_page \<noteq> take 78 cal_page"
proof -
  have c: "is_calibration LegacyCalibration" by (simp add: is_calibration_cases)
  have raw: "cal_page = take 148 (drop (nat 0 * 148) cal_page)"
    by (simp add: example_page_facts)
  have k: "2 = le_sint (take 1 (drop 43 cal_page))" by (rule example_page_facts(2) [symmetric])
  have len: "(nat 0 + 1) * 148 \<le> length cal_page" by (simp add: example_page_facts)
  have i: "(0::int) \<le> 0" by simp
  have fits: "44 + 17 * nat 2 \<le> (148::nat)" by simp
  note th = Calibration_checksum_span [OF c calibration_consts(5) i len raw k fits,
      of sum_crc16]
  from th have "sum_crc16 (take (148 - 2) cal_page) = le_uint (drop (148 - 2) cal_page) \<longrightarrow>
           (\<exists>r. Calibration_Create sum_crc16 LegacyCalibration cal_page 0 = Inr r
                \<and> raw_data r = cal_page \<and> numsub r = Inr 2 \<and> length (subcals r) = nat 2)"
    by (rule conjunct1)
  with example_page_facts(3)
  have a: "\<exists>r. Calibration_Create sum_crc16 LegacyCalibration cal_page 0 = Inr r
          \<and> raw_data r = cal_page \<and> numsub r = Inr 2 \<and> length (subcals r) = 2"
    by simp
  from th have "(take (148 - 2) cal_page = take (44 + 17 * nat 2) cal_page)
                  = (44 + 17 * nat 2 + 2 = (148::nat))"
    by (rule conjunct1 [OF conjunct2 [OF conjunct2]])
  then have b: "take 146 cal_page \<noteq> take 78 cal_page" by simp
  from c a b example_page_facts(3) show ?thesis by (simp add: calibration_consts)
qed

text \<open>
  Claim C1 as stated fails: in \<open>cal_page_hdr_crc\<close> the count is 0 and the two bytes
  right after the header hold the checksum of the header, yet decoding fails with
  \<^verbatim>\<open>CrcError\<close>, since the bytes compared are the last two of the 148.
\<close>

theorem Calibration_checksum_span_counterexample:
  "Calibration_Create sum_crc16 LegacyCalibration cal_page_hdr_crc 0 =
     Inl (CrcError ''Could not parse LegacyCalibration'')
   \<and> le_sint (take 1 (drop 43 cal_page_hdr_crc)) = 0
   \<and> sum_crc16 (take 44 cal_page_hdr_crc) = le_uint (take 2 (drop 44 cal_page_hdr_crc))"
  by (intro conjI example_calibrations example_page_facts)

section \<open>Sub-records that do not fit\<close>

text \<open>
  Claim C2, as amended. The count of sub-records is the count byte read as a signed
  integer, from \<open>-128\<close> to 127. For a calibration record whose header decodes: when
  the header size plus this count times the sub-record size exceeds the chosen record
  size, decoding fails with \<^verbatim>\<open>struct.error\<close>, raised when the first sub-record slice
  cut short by the end of the record is unpacked, before the checksum is computed. A
  count of 0 gives a record without sub-records, returned when the checksum of the
  record matches; so does a negative count (a count byte from \<^verbatim>\<open>0x80\<close> to
  \<^verbatim>\<open>0xFF\<close>), for which nothing is raised. (A record slice of fewer than two
  bytes, which only a negative record index can give beside a header that decodes, has
  no checksum to read, and reading it raises \<^verbatim>\<open>struct.error\<close>.)
\<close>

theorem Calibration_overrun:
  assumes c: "is_calibration c" and n: "ClassSize c = Inr n"
    and raw: "raw = py_slice buf (i * int n) (i * int n + int n)"
    and cal: "cal_data = py_slice buf (i * int n) (i * int n + 44)"
    and hdr: "length cal_data = 44"
    and k: "k = le_sint (take 1 (drop 43 cal_data))"
  shows "- 128 \<le> k \<and> k \<le> 127
       \<and> (int n < 44 + 17 * k \<longrightarrow> Calibration_Create crc16 c buf i = Inl StructError)
       \<and> (k \<le> 0 \<longrightarrow>
            Calibration_Create crc16 c buf i =
              (if length raw < 2 then Inl StructError
               else if crc16 (take (length raw - 2) raw) = le_uint (drop (length raw - 2) raw)
               then Inr \<lparr>rcls = c, raw_data = raw, data = unpack_fields cal_fmt cal_data,
                         page_data = raw, subcals = []\<rparr>
               else Inl (CrcError (''Could not parse '' @ cls_name c))))"
proof (intro conjI impI)
  define dat where "dat = unpack_fields cal_fmt cal_data"
  define subdata where "subdata = py_slice raw 44 (44 + k * 17)"
  note eq = Calibration_Create_eq [OF c n raw cal dat_def k, of crc16, folded subdata_def]
  from c n have n44: "44 \<le> n"
    by (auto simp add: is_calibration_cases calibration_consts)
  have lk: "lookup_attr ''crc'' c = Some Calibration"
    using c by (auto simp add: is_calibration_cases calibration_consts)
  from hdr obtain b where b: "take 1 (drop 43 cal_data) = [b]"
    by (cases "drop 43 cal_data") auto
  have "k = le_sint [b]" by (simp only: k b)
  with le_sint_byte_range [of b] show "- 128 \<le> k" and "k \<le> 127" by simp_all
  {
    assume over: "int n < 44 + 17 * k"
    with n44 have kp: "0 < k" by simp
    obtain off where off: "py_getitem dat 1 = Inr off"
      by (simp add: dat_def cal_fmt_def py_getitem_simps)
    have "length raw \<le> nat (i * int n + int n - i * int n)"
      unfolding raw by (rule length_py_slice) simp
    then have lraw: "length raw \<le> n" by simp
    have "subdata = take (17 * nat k) (drop 44 raw)"
      using kp by (simp add: subdata_def py_slice_nonneg nat_add_distrib nat_mult_distrib
          mult.commute)
    then have "length subdata \<le> length raw - 44" by simp
    with lraw over kp have short: "length subdata < 17 * nat k" by linarith
    have "subcal_loop dat subdata 17 (xrange k) [] = Inl StructError"
      using subcal_loop_upt [OF off, of subdata 0 "nat k" "[]"] short kp
      by (simp add: xrange_upt)
    with eq hdr show "Calibration_Create crc16 c buf i = Inl StructError" by simp
  }
  {
    assume "k \<le> 0"
    then have "subcal_loop dat subdata 17 (xrange k) [] = Inr []"
      by (simp add: xrange_upt)
    with eq hdr
    show "Calibration_Create crc16 c buf i =
              (if length raw < 2 then Inl StructError
               else if crc16 (take (length raw - 2) raw) = le_uint (drop (length raw - 2) raw)
               then Inr \<lparr>rcls = c, raw_data = raw, data = unpack_fields cal_fmt cal_data,
                         page_data = raw, subcals = []\<rparr>
               else Inl (CrcError (''Could not parse '' @ cls_name c)))"
      by (simp add: check_crc_calibration lk dat_def)
  }
qed

theorem Calibration_overrun_witness:
  "is_calibration LegacyCalibration \<and> ClassSize LegacyCalibration = Inr 148
   \<and> length (py_slice cal_page_overrun 0 44) = 44
   \<and> le_sint (take 1 (drop 43 (py_slice cal_page_overrun 0 44))) = 7
   \<and> Calibration_Create sum_crc16 LegacyCalibration cal_page_overrun 0 = Inl StructError
   \<and> length (py_slice cal_page_neg 0 44) = 44
   \<and> le_sint (take 1 (drop 43 (py_slice cal_page_neg 0 44))) = - 1
   \<and> (\<exists>r. Calibration_Create sum_crc16 LegacyCalibration cal_page_neg 0 = Inr r
          \<and> subcals r = [])"
proof -
  have c: "is_calibration LegacyCalibration" by (simp add: is_calibration_cases)
  have sl: "py_slice cal_page_overrun 0 44 = take 44 cal_page_overrun"
    "py_slice cal_page_neg 0 44 = take 44 cal_page_neg"
    "py_slice cal_page_neg 0 148 = cal_page_neg"
    by (simp_all add: py_slice_nonneg example_negative_count)
  have hdr: "length (py_slice cal_page_overrun (0 * int 148) (0 * int 148 + 44)) = 44"
    "length (py_slice cal_page_neg (0 * int 148) (0 * int 148 + 44)) = 44"
    by (simp_all add: sl example_page_facts example_negative_count)
  have "take 1 (drop 43 (py_slice cal_page_overrun 0 44)) = take 1 (drop 43 cal_page_overrun)"
    "take 1 (drop 43 (py_slice cal_page_neg 0 44)) = take 1 (drop 43 cal_page_neg)"
    by (simp_all add: sl drop_take)
  then have k: "le_sint (take 1 (drop 43 (py_slice cal_page_overrun 0 44))) = 7"
    "le_sint (take 1 (drop 43 (py_slice cal_page_neg 0 44))) = - 1"
    by (simp_all only: example_page_facts example_negative_count)
  from Calibration_overrun [OF c calibration_consts(5) refl refl hdr(1) refl,
      of sum_crc16] k
  have over: "Calibration_Create sum_crc16 LegacyCalibration cal_page_overrun 0 = Inl StructError"
    by simp
  from Calibration_overrun [OF c calibration_consts(5) refl refl hdr(2) refl,
      of sum_crc16] k example_negative_count(1)
  have neg: "\<exists>r. Calibration_Create sum_crc16 LegacyCalibration cal_page_neg 0 = Inr r
          \<and> subcals r = []"
    by (auto simp add: sl split: if_splits)
  from c hdr k over neg show ?thesis by (simp add: calibration_consts)
qed

text \<open>
  Claim C2 as stated fails: the count 7 of \<open>cal_page_overrun\<close> overruns the 148 bytes,
  and the error is the \<^verbatim>\<open>struct.error\<close> of unpacking a short slice; the module has
  no error for a malformed record and no check ahead of the slicing.
\<close>

theorem Calibration_overrun_counterexample:
  "le_sint (take 1 (drop 43 cal_page_overrun)) = 7
   \<and> Calibration_Create sum_crc16 LegacyCalibration cal_page_overrun 0 = Inl StructError"
  by (intro conjI example_calibrations example_page_facts)

section \<open>The sub-records of a calibration record and its export\<close>

lemma err_map_Inr:
  "(\<And>x. x \<in> set xs \<Longrightarrow> \<exists>y. f x = Inr y)
   \<Longrightarrow> \<exists>ys. err_map f xs = Inr ys \<and> length ys = length xs"
proof (induction xs)
  case Nil
  then show ?case by simp
next
  case (Cons x xs)
  from Cons.prems [of x] obtain y where y: "f x = Inr y" by auto
  from Cons.IH Cons.prems obtain ys where "err_map f xs = Inr ys" "length ys = length xs"
    by auto
  with y show ?case by simp
qed

lemma calibration_fields:
  "class_attr own_BASE_FIELDS Calibration = Inr [''system_time'', ''display_time'']"
  "class_attr own_BASE_FIELDS LegacyCalibration = Inr [''system_time'', ''display_time'']"
  "class_attr own_FIELDS Calibration =
     Inr [''slope'', ''intercept'', ''scale'', ''decay'', ''numsub'', ''raw'']"
  "class_attr own_FIELDS LegacyCalibration =
     Inr [''slope'', ''intercept'', ''scale'', ''decay'', ''numsub'', ''raw'']"
  "class_attr own_BASE_FIELDS SubCal = Inr []"
  "class_attr own_FIELDS SubCal = Inr [''entered'', ''meter'', ''sensor'', ''applied'']"
  by code_simp+

lemma lookup_calibration_fields:
  "lookup_attr ''slope'' Calibration = Some Calibration"
  "lookup_attr ''intercept'' Calibration = Some Calibration"
  "lookup_attr ''scale'' Calibration = Some Calibration"
  "lookup_attr ''decay'' Calibration = Some Calibration"
  "lookup_attr ''raw'' Calibration = Some Calibration"
  "lookup_attr ''slope'' LegacyCalibration = Some Calibration"
  "lookup_attr ''intercept'' LegacyCalibration = Some Calibration"
  "lookup_attr ''scale'' LegacyCalibration = Some Calibration"
  "lookup_attr ''decay'' LegacyCalibration = Some Calibration"
  "lookup_attr ''raw'' LegacyCalibration = Some Calibration"
  "lookup_attr ''entered'' SubCal = Some SubCal"
  "lookup_attr ''meter'' SubCal = Some SubCal"
  "lookup_attr ''sensor'' SubCal = Some SubCal"
  "lookup_attr ''applied'' SubCal = Some SubCal"
  by code_simp+

lemma field_attr_subcal:
  assumes "rcls s = SubCal" and "data s = [PInt a, PInt b, PInt c, PInt d, e]"
  shows "field_attr rtt s ''entered'' = Inr (ATime (rtt a))"
    and "field_attr rtt s ''meter'' = Inr (AInt b)"
    and "field_attr rtt s ''sensor'' = Inr (AInt c)"
    and "field_attr rtt s ''applied'' = Inr (ATime (rtt d))"
  by (simp_all add: field_attr_def assms lookup_calibration_fields py_getitem_simps
      ReceiverTimeToTime_def py_int_def)

lemma to_dict_subcal: "\<exists>res. to_dict rtt f (sub_at subdata off m) = Inr res"
proof -
  have r: "rcls (sub_at subdata off m) = SubCal" by (simp add: sub_at_def)
  obtain a b c d e where d: "data (sub_at subdata off m) = [PInt a, PInt b, PInt c, PInt d, e]"
    by (simp add: sub_at_def sub_fmt_def)
  show ?thesis
    by (simp add: to_dict_def r calibration_fields field_attr_subcal [OF r d])
qed

lemma field_attr_calibration:
  assumes "is_calibration (rcls s)"
    and "data s = [PInt a, PInt b, v2, v3, v4, v5, v6, v7, v8, PInt k]"
  shows "field_attr rtt s ''system_time'' = Inr (ATime (rtt a))"
    and "field_attr rtt s ''display_time'' = Inr (ATime (rtt b))"
    and "field_attr rtt s ''slope'' = Inr (AVal v2)"
    and "field_attr rtt s ''intercept'' = Inr (AVal v3)"
    and "field_attr rtt s ''scale'' = Inr (AVal v4)"
    and "field_attr rtt s ''decay'' = Inr (AVal v8)"
    and "field_attr rtt s ''numsub'' = Inr (AInt k)"
    and "field_attr rtt s ''raw'' = Inr (AStr (hexlify (raw_data s)))"
proof -
  from assms(1) have c: "rcls s = Calibration \<or> rcls s = LegacyCalibration"
    by (simp add: is_calibration_cases)
  have g: "py_getitem (data s) 0 = Inr (PInt a)" "py_getitem (data s) 1 = Inr (PInt b)"
    "py_getitem (data s) 2 = Inr v2" "py_getitem (data s) 3 = Inr v3"
    "py_getitem (data s) 4 = Inr v4" "py_getitem (data s) 8 = Inr v8"
    "py_getitem (data s) 9 = Inr (PInt k)"
    by (simp_all add: assms(2) py_getitem_def)
  from c show "field_attr rtt s ''system_time'' = Inr (ATime (rtt a))"
    by (simp add: field_attr_def system_time_def g ReceiverTimeToTime_def)
  from c show "field_attr rtt s ''display_time'' = Inr (ATime (rtt b))"
    by (auto simp add: field_attr_def display_time_def g ReceiverTimeToTime_def
        calibration_consts)
  from c show "field_attr rtt s ''slope'' = Inr (AVal v2)"
    by (auto simp add: field_attr_def g lookup_calibration_fields)
  from c show "field_attr rtt s ''intercept'' = Inr (AVal v3)"
    by (auto simp add: field_attr_def g lookup_calibration_fields)
  from c show "field_attr rtt s ''scale'' = Inr (AVal v4)"
    by (auto simp add: field_attr_def g lookup_calibration_fields)
  from c show "field_attr rtt s ''decay'' = Inr (AVal v8)"
    by (auto simp add: field_attr_def g lookup_calibration_fields)
  from c show "field_attr rtt s ''numsub'' = Inr (AInt k)"
    by (auto simp add: field_attr_def g numsub_def py_int_def calibration_consts)
  from c show "field_attr rtt s ''raw'' = Inr (AStr (hexlify (raw_data s)))"
    by (auto simp add: field_attr_def lookup_calibration_fields)
qed

lemma to_dict_calibration:
  assumes c: "is_calibration (rcls s)"
    and d: "data s = unpack_fields cal_fmt cal_data"
  shows "\<exists>res. to_dict rtt f s = Inr res"
proof -
  obtain a b v2 v3 v4 v5 v6 v7 v8 k
    where d': "data s = [PInt a, PInt b, v2, v3, v4, v5, v6, v7, v8, PInt k]"
    by (simp add: d cal_fmt_def)
  from c have "rcls s = Calibration \<or> rcls s = LegacyCalibration"
    by (simp add: is_calibration_cases)
  then show ?thesis
    by (auto simp add: to_dict_def calibration_fields field_attr_calibration [OF c d'])
qed


text \<open>
  Claim C8, as amended. The count \<open>k\<close> that a calibration header declares is its count
  byte read as a signed integer, from \<open>-128\<close> to 127. For every successfully decoded
  calibration record with \<open>k \<ge> 0\<close>, exactly \<open>k\<close> sub-records are decoded, the
  \<open>m\<close>-th from the 17 bytes at offset \<open>44 + 17 * m\<close> of the record, right after the
  header and one after the other; with \<open>k < 0\<close> no sub-record is decoded. In both
  cases \<^verbatim>\<open>to_dict\<close> returns a dictionary whose key \<^verbatim>\<open>subrecords\<close> holds the list
  of the exports of the decoded sub-records, in their order.
\<close>

theorem Calibration_subrecords:
  assumes c: "is_calibration c" and cr: "Calibration_Create crc16 c buf i = Inr r"
  shows "\<exists>k. numsub r = Inr k \<and> - 128 \<le> k \<and> k \<le> 127
     \<and> length (subcals r) = nat k
     \<and> (k < 0 \<longrightarrow> subcals r = [])
     \<and> (\<forall>m < nat k. rcls (subcals r ! m) = SubCal
            \<and> raw_data (subcals r ! m) = take 17 (drop (44 + 17 * m) (raw_data r))
            \<and> length (raw_data (subcals r ! m)) = 17
            \<and> data (subcals r ! m) = unpack_fields sub_fmt (raw_data (subcals r ! m)))
     \<and> (\<exists>d subs. Calibration_to_dict rtt isoformat r = Inr d
            \<and> d ''subrecords'' = Some (SubRecords subs)
            \<and> err_map (to_dict rtt isoformat) (subcals r) = Inr subs
            \<and> length subs = nat k)"
proof -
  note facts = Calibration_Create_Inr [OF c cr]
  from facts(4) obtain k where
    ns: "numsub r = Inr k"
    and len: "length (subcals r) = nat k"
    and fit: "0 < k \<longrightarrow> 44 + 17 * nat k \<le> length (raw_data r)"
    and nth: "\<forall>m < nat k. \<exists>off. py_getitem (data r) 1 = Inr off \<and>
                 subcals r ! m = sub_at (drop 44 (raw_data r)) off m"
    by auto
  from facts(3) obtain cal_data
    where cd: "length cal_data = 44" "data r = unpack_fields cal_fmt cal_data" by blast
  from numsub_calibration [of r cal_data] c facts(1) cd ns
  have k: "k = le_sint (take 1 (drop 43 cal_data))" by simp
  from cd(1) obtain b where b: "take 1 (drop 43 cal_data) = [b]"
    by (cases "drop 43 cal_data") auto
  have "k = le_sint [b]" by (simp only: k b)
  with le_sint_byte_range [of b] have range: "- 128 \<le> k" "k \<le> 127" by simp_all
  have slices: "rcls (subcals r ! m) = SubCal
            \<and> raw_data (subcals r ! m) = take 17 (drop (44 + 17 * m) (raw_data r))
            \<and> length (raw_data (subcals r ! m)) = 17
            \<and> data (subcals r ! m) = unpack_fields sub_fmt (raw_data (subcals r ! m))"
    if m: "m < nat k" for m
  proof -
    from nth m obtain off where s: "subcals r ! m = sub_at (drop 44 (raw_data r)) off m"
      by blast
    from m have "0 < k" by simp
    with fit have "44 + 17 * nat k \<le> length (raw_data r)" by simp
    moreover from m have "17 * m + 17 \<le> 17 * nat k" by simp
    ultimately have "44 + 17 * m + 17 \<le> length (raw_data r)" by linarith
    then show ?thesis by (simp add: s sub_at_def add.commute)
  qed
  have subs_ok: "\<exists>y. to_dict rtt isoformat x = Inr y" if "x \<in> set (subcals r)" for x
  proof -
    from that obtain m where m: "m < length (subcals r)" "x = subcals r ! m"
      by (auto simp add: in_set_conv_nth)
    with nth len obtain off where "x = sub_at (drop 44 (raw_data r)) off m" by auto
    then show ?thesis by (simp add: to_dict_subcal)
  qed
  from err_map_Inr [of "subcals r" "to_dict rtt isoformat", OF subs_ok] obtain subs
    where subs: "err_map (to_dict rtt isoformat) (subcals r) = Inr subs"
      "length subs = length (subcals r)" by blast
  from to_dict_calibration [of r cal_data rtt isoformat] c facts(1) cd
  obtain res where res: "to_dict rtt isoformat r = Inr res" by auto
  have "Calibration_to_dict rtt isoformat r =
          Inr ((map_option Field \<circ> res)(''subrecords'' \<mapsto> SubRecords subs))"
    by (simp add: Calibration_to_dict_def res subs)
  with subs len have dict: "\<exists>d subs. Calibration_to_dict rtt isoformat r = Inr d
            \<and> d ''subrecords'' = Some (SubRecords subs)
            \<and> err_map (to_dict rtt isoformat) (subcals r) = Inr subs
            \<and> length subs = nat k"
    by simp
  have neg: "k < 0 \<longrightarrow> subcals r = []" using len by auto
  from ns range len neg slices dict show ?thesis by blast
qed

theorem Calibration_subrecords_witness:
  "is_calibration LegacyCalibration
   \<and> Calibration_Create sum_crc16 LegacyCalibration cal_page 0 = Inr cal_rec
   \<and> numsub cal_rec = Inr 2
   \<and> length (subcals cal_rec) = 2
   \<and> raw_data (subcals cal_rec ! 1) = take 17 (drop 61 cal_page)
   \<and> data (subcals cal_rec ! 1) = [PInt 12, PInt 101, PInt 201, PInt 13, PStr [0]]"
proof -
  have c: "is_calibration LegacyCalibration" by (simp add: is_calibration_cases)
  have k: "numsub cal_rec = Inr 2"
    by (simp add: numsub_def cal_rec_def calibration_consts py_getitem_def py_int_def)
  from Calibration_subrecords [OF c example_calibrations(1), of id "\<lambda>t. ''time''"] k
  have "length (subcals cal_rec) = 2"
    and "raw_data (subcals cal_rec ! 1) = take 17 (drop (44 + 17 * 1) (raw_data cal_rec))"
    by auto
  moreover have "raw_data cal_rec = cal_page"
    and "data (subcals cal_rec ! 1) = [PInt 12, PInt 101, PInt 201, PInt 13, PStr [0]]"
    by (simp_all add: cal_rec_def)
  ultimately show ?thesis using c k example_calibrations(1) by simp
qed

text \<open>
  Claim C8 as stated fails: the record decoded from \<open>cal_page_neg\<close> has the count byte
  \<^verbatim>\<open>0xFF\<close>, which is 255 as an unsigned and \<open>-1\<close> as a signed byte; its
  \<^verbatim>\<open>numsub\<close> is \<open>-1\<close> and it has no sub-record.
\<close>

theorem Calibration_subrecords_counterexample:
  "Calibration_Create sum_crc16 LegacyCalibration cal_page_neg 0 = Inr cal_rec_neg
   \<and> le_uint (take 1 (drop 43 cal_page_neg)) = 255
   \<and> numsub cal_rec_neg = Inr (- 1)
   \<and> subcals cal_rec_neg = []"
proof -
  have "numsub cal_rec_neg = Inr (- 1)"
    by (simp add: numsub_def cal_rec_neg_def calibration_consts py_getitem_def py_int_def)
  moreover have "subcals cal_rec_neg = []" by (simp add: cal_rec_neg_def)
  ultimately show ?thesis using example_negative_count(1,2) by simp
qed

section \<open>System time and display time\<close>

lemma fixed_layout_two_times:
  assumes "fixed_layout c"
  shows "\<exists>rest. ClassFormat c = Inr (Fmt_I # Fmt_I # rest)"
  using assms unfolding fixed_layout_cases
  by (elim insertE emptyE) (simp_all add: ClassFormat_eqs)

lemma lookup_display_time:
  assumes "fixed_layout c"
  shows "lookup_attr ''display_time'' c =
           Some (if c = EventRecord then EventRecord else GenericTimestampedRecord)"
proof -
  have "lookup_attr ''display_time'' c =
           Some (if c = EventRecord then EventRecord else GenericTimestampedRecord)"
    if "c \<in> {GenericXMLRecord, InsertionRecord, G5InsertionRecord, G5UserSettings,
          G6UserSettings, MeterRecord, G5MeterRecord, EventRecord, SensorRecord, EGVRecord,
          G5EGVRecord, G6EGVRecord}"
    using that by (elim insertE emptyE; hypsubst; code_simp)
  with assms show ?thesis by (simp only: fixed_layout_cases)
qed

lemma times_of_data:
  assumes d: "data r = PInt s # PInt d # rest"
    and l: "lookup_attr ''display_time'' (rcls r) = Some GenericTimestampedRecord"
  shows "system_secs r = Inr (PInt s) \<and> display_secs r = Inr (PInt d)
       \<and> system_time rtt r = Inr (rtt s) \<and> display_time rtt r = Inr (rtt d)"
  by (simp add: system_secs_def display_secs_def system_time_def display_time_def d l
      py_getitem_simps ReceiverTimeToTime_def)

text \<open>
  Claim C7, as amended. For every successfully decoded record of every timestamped
  variant, \<^verbatim>\<open>system_time\<close> is the epoch conversion of \<^verbatim>\<open>system_secs\<close>, the first
  decoded field. \<^verbatim>\<open>display_time\<close> is the epoch conversion of \<^verbatim>\<open>display_secs\<close>, the
  second decoded field, for every variant except \<^verbatim>\<open>EventRecord\<close>, whose
  \<^verbatim>\<open>display_time\<close> is the epoch conversion of its fifth decoded field (the four bytes
  at offset 10). The fixed-layout variants, the two calibration classes and the
  sub-records of a calibration record are covered.
\<close>

theorem timestamps:
  "(fixed_layout c \<and> Create crc16 c buf i = Inr r \<longrightarrow>
      (\<exists>s d. system_secs r = Inr (PInt s) \<and> display_secs r = Inr (PInt d)
           \<and> system_time rtt r = Inr (rtt s)
           \<and> (if c = EventRecord
              then py_getitem (data r) 4 = Inr (PInt (le_uint (take 4 (drop 10 (raw_data r)))))
                 \<and> display_time rtt r = Inr (rtt (le_uint (take 4 (drop 10 (raw_data r)))))
              else display_time rtt r = Inr (rtt d))))
   \<and> (is_calibration c' \<and> Calibration_Create crc16 c' buf' i' = Inr r' \<longrightarrow>
      (\<exists>s d. system_secs r' = Inr (PInt s) \<and> display_secs r' = Inr (PInt d)
           \<and> system_time rtt r' = Inr (rtt s) \<and> display_time rtt r' = Inr (rtt d))
      \<and> (\<forall>sub \<in> set (subcals r').
           \<exists>s d. system_secs sub = Inr (PInt s) \<and> display_secs sub = Inr (PInt d)
             \<and> system_time rtt sub = Inr (rtt s) \<and> display_time rtt sub = Inr (rtt d)))"
proof (intro conjI impI)
  assume a: "fixed_layout c \<and> Create crc16 c buf i = Inr r"
  then have fl: "fixed_layout c" and cr: "Create crc16 c buf i = Inr r" by simp_all
  from fixed_layout_two_times [OF fl] obtain rest
    where f: "ClassFormat c = Inr (Fmt_I # Fmt_I # rest)" ..
  from Create_Inr(1,3) [OF cr f]
  have rc: "rcls r = c"
    and d: "data r = PInt (le_uint (take 4 (raw_data r)))
                  # PInt (le_uint (take 4 (drop 4 (raw_data r))))
                  # unpack_fields rest (drop 8 (raw_data r))"
    by simp_all
  show "\<exists>s d. system_secs r = Inr (PInt s) \<and> display_secs r = Inr (PInt d)
           \<and> system_time rtt r = Inr (rtt s)
           \<and> (if c = EventRecord
              then py_getitem (data r) 4 = Inr (PInt (le_uint (take 4 (drop 10 (raw_data r)))))
                 \<and> display_time rtt r = Inr (rtt (le_uint (take 4 (drop 10 (raw_data r)))))
              else display_time rtt r = Inr (rtt d))"
  proof (cases "c = EventRecord")
    case True
    with f have "rest = [Fmt_B, Fmt_B, Fmt_I, Fmt_I, Fmt_H]" by (simp add: ClassFormat_eqs)
    with d have g4: "py_getitem (data r) 4 = Inr (PInt (le_uint (take 4 (drop 10 (raw_data r)))))"
      by (simp add: py_getitem_simps)
    from lookup_display_time [OF fl] True rc
    have "display_time rtt r = Inr (rtt (le_uint (take 4 (drop 10 (raw_data r)))))"
      by (simp add: display_time_def g4 ReceiverTimeToTime_def)
    with g4 True d show ?thesis
      by (simp add: system_secs_def display_secs_def system_time_def py_getitem_simps
          ReceiverTimeToTime_def)
  next
    case False
    with lookup_display_time [OF fl] rc
    have "lookup_attr ''display_time'' (rcls r) = Some GenericTimestampedRecord" by simp
    from times_of_data [OF d this, of rtt] False show ?thesis by auto
  qed
next
  assume a: "is_calibration c' \<and> Calibration_Create crc16 c' buf' i' = Inr r'"
  then have c: "is_calibration c'" and cr: "Calibration_Create crc16 c' buf' i' = Inr r'"
    by simp_all
  note facts = Calibration_Create_Inr [OF c cr]
  from facts(3) obtain s d rest where d: "data r' = PInt s # PInt d # rest"
    by (auto simp add: cal_fmt_def)
  from c facts(1)
  have l: "lookup_attr ''display_time'' (rcls r') = Some GenericTimestampedRecord"
    by (auto simp add: is_calibration_cases calibration_consts)
  from times_of_data [OF d l, of rtt]
  show "\<exists>s d. system_secs r' = Inr (PInt s) \<and> display_secs r' = Inr (PInt d)
           \<and> system_time rtt r' = Inr (rtt s) \<and> display_time rtt r' = Inr (rtt d)"
    by blast
  show "\<forall>sub \<in> set (subcals r').
           \<exists>s d. system_secs sub = Inr (PInt s) \<and> display_secs sub = Inr (PInt d)
             \<and> system_time rtt sub = Inr (rtt s) \<and> display_time rtt sub = Inr (rtt d)"
  proof
    fix sub assume "sub \<in> set (subcals r')"
    then obtain m where m: "m < length (subcals r')" "sub = subcals r' ! m"
      by (auto simp add: in_set_conv_nth)
    with facts(4) obtain off where s: "sub = sub_at (drop 44 (raw_data r')) off m"
      by auto
    then obtain s' d' rest' where ds: "data sub = PInt s' # PInt d' # rest'"
      by (simp add: sub_at_def sub_fmt_def)
    from s have ls: "lookup_attr ''display_time'' (rcls sub) = Some GenericTimestampedRecord"
      by (simp add: sub_at_def calibration_consts)
    from times_of_data [OF ds ls, of rtt]
    show "\<exists>s d. system_secs sub = Inr (PInt s) \<and> display_secs sub = Inr (PInt d)
             \<and> system_time rtt sub = Inr (rtt s) \<and> display_time rtt sub = Inr (rtt d)"
      by blast
  qed
qed

theorem timestamps_witness:
  "fixed_layout EventRecord \<and> Create sum_crc16 EventRecord event_page 0 = Inr event_rec
   \<and> system_secs event_rec = Inr (PInt 1) \<and> system_time id event_rec = Inr 1
   \<and> display_time id event_rec = Inr 3
   \<and> is_calibration LegacyCalibration
   \<and> Calibration_Create sum_crc16 LegacyCalibration cal_page 0 = Inr cal_rec
   \<and> display_secs cal_rec = Inr (PInt 2) \<and> display_time id cal_rec = Inr 2"
proof -
  have fl: "fixed_layout EventRecord" by (simp add: fixed_layout_cases)
  have c: "is_calibration LegacyCalibration" by (simp add: is_calibration_cases)
  have ev: "system_secs event_rec = Inr (PInt 1)" "display_secs event_rec = Inr (PInt 2)"
    "take 4 (drop 10 (raw_data event_rec)) = [3, 0, 0, 0]"
    by (simp_all add: event_rec_def system_secs_def display_secs_def py_getitem_simps
        event_page_def)
  have cal: "system_secs cal_rec = Inr (PInt 1)" "display_secs cal_rec = Inr (PInt 2)"
    by (simp_all add: cal_rec_def system_secs_def display_secs_def py_getitem_simps)
  from timestamps [of EventRecord sum_crc16 event_page 0 event_rec id LegacyCalibration
      cal_page 0 cal_rec] fl c example_records(3) example_calibrations(1) ev cal
  show ?thesis by (simp add: id_def)
qed

text \<open>
  Claim C7 as stated fails on \<^verbatim>\<open>EventRecord\<close>: the record decoded from
  \<open>event_page\<close> has \<^verbatim>\<open>display_secs\<close> 2 and the \<^verbatim>\<open>display_time\<close> of second 3,
  its fifth field.
\<close>

theorem EventRecord_display_time_counterexample:
  "Create sum_crc16 EventRecord event_page 0 = Inr event_rec
   \<and> display_secs event_rec = Inr (PInt 2)
   \<and> display_time id event_rec = Inr 3"
proof -
  have "lookup_attr ''display_time'' EventRecord = Some EventRecord" by code_simp
  then have "display_secs event_rec = Inr (PInt 2)" "display_time id event_rec = Inr 3"
    by (simp_all add: event_rec_def display_secs_def display_time_def py_getitem_simps
        ReceiverTimeToTime_def)
  with example_records(3) show ?thesis by simp
qed

end
